theory Spec2Isabelle
  imports Main
begin

section \<open>Torn Target Tracker website script (app.js, version 3.0.0)\<close>

text \<open>
  The script is one closure over a configuration table, a mutable \<open>state\<close> object and a
  table of DOM elements resolved once. The embedding keeps that shape: the configuration
  constants are constants, \<open>state\<close> is a record, a DOM element is a record of the
  parts the script reads and writes, and the page (the \<open>elements\<close> table together with
  the platform values the handlers read) is a record that every handler takes and returns.

  JavaScript numbers that hold pixel offsets, touch coordinates and indices are modelled
  as \<open>int\<close>. The animated counters compute in double precision with \<open>Math.pow\<close>
  and are not part of the embedding.
\<close>

subsection \<open>CONFIG\<close>

definition mobileBreakpoint :: int where "mobileBreakpoint = 900"
definition scrollThreshold :: int where "scrollThreshold = 50"
definition revealOffset :: int where "revealOffset = 100"
definition swipeThreshold :: int where "swipeThreshold = 50"
definition navbarHideThreshold :: int where "navbarHideThreshold = 5"
definition screenshotAutoplayInterval :: int where "screenshotAutoplayInterval = 5000"

subsection \<open>The state object\<close>

text \<open>
  \<open>screenshotAutoplay\<close> is \<open>null\<close> (\<open>None\<close>) or the handle \<open>setInterval\<close> returned.
\<close>

record state =
  lastScrollY :: int
  scrollDirection :: string
  ticking :: bool
  isNavbarHidden :: bool
  screenshotAutoplay :: "nat option"
  hasShownBackToTop :: bool

definition initial_state :: state where
  "initial_state =
     \<lparr> lastScrollY = 0, scrollDirection = ''up'', ticking = False,
       isNavbarHidden = False, screenshotAutoplay = None, hasShownBackToTop = False \<rparr>"

subsection \<open>DOM elements\<close>

text \<open>
  An element carries its class list, its attributes, its \<open>data-*\<close> values, its inline
  style properties and its text. A missing attribute or data value is \<open>None\<close>
  (\<open>undefined\<close> in the script).
\<close>

record element =
  classList :: "string set"
  attributes :: "string \<rightharpoonup> string"
  dataset :: "string \<rightharpoonup> string"
  style :: "string \<rightharpoonup> string"
  textContent :: string

definition contains :: "string \<Rightarrow> element \<Rightarrow> bool" where
  "contains c el = (c \<in> classList el)"

definition addClass :: "string \<Rightarrow> element \<Rightarrow> element" where
  "addClass c el = el\<lparr>classList := insert c (classList el)\<rparr>"

text \<open>\<open>classList.toggle(c, force)\<close>: with \<open>force\<close> the class is added, without it removed.\<close>

definition toggleClass :: "string \<Rightarrow> bool \<Rightarrow> element \<Rightarrow> element" where
  "toggleClass c force el =
     (if force then el\<lparr>classList := insert c (classList el)\<rparr>
      else el\<lparr>classList := classList el - {c}\<rparr>)"

definition setAttribute :: "string \<Rightarrow> string \<Rightarrow> element \<Rightarrow> element" where
  "setAttribute name v el = el\<lparr>attributes := (attributes el)(name \<mapsto> v)\<rparr>"

definition setStyle :: "string \<Rightarrow> string \<Rightarrow> element \<Rightarrow> element" where
  "setStyle name v el = el\<lparr>style := (style el)(name \<mapsto> v)\<rparr>"

subsection \<open>The page\<close>

text \<open>
  The first block of fields is the \<open>elements\<close> table and the node lists the handlers
  query: \<open>screenshotTabs\<close> (\<open>.screenshot-tab\<close>), \<open>screenshots\<close>
  (\<open>.screenshot-frame img\<close>), \<open>reveals\<close> (\<open>.reveal\<close>), the navbar and the caption
  (\<open>null\<close> when absent). The node lists are kept apart: a tab is not a screenshot image,
  and neither is a reveal element or the back-to-top button.
  \<open>focusedTab\<close> is the tab that has the keyboard focus, if one has; \<open>tabsInGallery\<close>
  says whether the tabs are descendants of the \<open>.screenshot-gallery\<close> element, so that
  a \<open>focusin\<close> dispatched on a tab bubbles to the gallery's listener; \<open>observed\<close> holds
  the indices of the reveal elements that the reveal observer still observes.

  The second block is what the platform provides: the scroll offset, the window size,
  the \<open>prefers-reduced-motion\<close> media query, \<open>document.hidden\<close>, whether
  \<open>IntersectionObserver\<close> exists, and the interval timers that are alive.
  \<open>setInterval\<close> hands out positive handles, each one larger than \<open>intervalCounter\<close>.
  \<open>objectPrototype\<close> gives, for each property name that every plain object inherits
  from \<open>Object.prototype\<close> (\<open>constructor\<close>, \<open>toString\<close>, ...), the text the
  inherited value turns into when it is assigned to \<open>textContent\<close>.

  The last block is the four closure variables of \<open>initSwipeGestures\<close>.
\<close>

record page =
  st :: state
  navbar :: "element option"
  screenshotTabs :: "element list"
  screenshots :: "element list"
  screenshotCaption :: "element option"
  reveals :: "element list"
  focusedTab :: "nat option"
  tabsInGallery :: bool
  observed :: "nat set"
  scrollY :: int
  innerWidth :: int
  innerHeight :: int
  reducedMotion :: bool
  documentHidden :: bool
  hasIntersectionObserver :: bool
  objectPrototype :: "string \<rightharpoonup> string"
  liveIntervals :: "nat list"
  intervalCounter :: nat
  touchStartX :: int
  touchStartY :: int
  touchEndX :: int
  touchEndY :: int

definition prefersReducedMotion :: "page \<Rightarrow> bool" where
  "prefersReducedMotion p = reducedMotion p"

definition isMobile :: "page \<Rightarrow> bool" where
  "isMobile p = (innerWidth p < mobileBreakpoint)"

subsection \<open>JavaScript helpers\<close>

text \<open>
  The remainder operator \<open>%\<close> truncates towards zero: the result has the sign of the
  dividend. The script only divides by the number of tabs; where that number can be zero
  the caller is modelled separately.
\<close>

definition js_rem :: "int \<Rightarrow> int \<Rightarrow> int" where
  "js_rem a b = sgn a * (\<bar>a\<bar> mod \<bar>b\<bar>)"

text \<open>\<open>Array.prototype.findIndex\<close>: the first index whose element passes, or \<open>-1\<close>.\<close>

fun findIndex :: "('a \<Rightarrow> bool) \<Rightarrow> 'a list \<Rightarrow> int" where
  "findIndex P [] = - 1"
| "findIndex P (x # xs) =
     (if P x then 0 else (let r = findIndex P xs in if r < 0 then - 1 else r + 1))"

text \<open>\<open>forEach((x, i) => ...)\<close> where the callback rewrites the element it is given.\<close>

fun forEachIndexed :: "(nat \<Rightarrow> 'a \<Rightarrow> 'a) \<Rightarrow> nat \<Rightarrow> 'a list \<Rightarrow> 'a list" where
  "forEachIndexed f i [] = []"
| "forEachIndexed f i (x # xs) = f i x # forEachIndexed f (Suc i) xs"

subsection \<open>Screenshot gallery\<close>

text \<open>
  The caption table: \<open>captions\<close> holds the object's own seven keys. The dash in each
  caption is U+2014, written here as its UTF-8 bytes.
\<close>

definition emdash :: string where
  "emdash = [CHR 0xE2, CHR 0x80, CHR 0x94]"

definition captions :: "string option \<Rightarrow> string option" where
  "captions target =
     (if target = Some ''home'' then
        Some (''Target Command Center '' @ emdash @ '' Your central hub for all operations'')
      else if target = Some ''stats'' then
        Some (''Statistics Dashboard '' @ emdash @ '' Real-time insights and analytics'')
      else if target = Some ''history'' then
        Some (''Attack History '' @ emdash @ '' Premium timeline of your recent attacks'')
      else if target = Some ''npc'' then
        Some (''NPC Loot Timer '' @ emdash @ '' Track loot levels for Torn NPCs and bosses'')
      else if target = Some ''bounty'' then
        Some (''Bounty Tracker '' @ emdash @ '' Manage bounty targets and statistics'')
      else if target = Some ''ratelimit'' then
        Some (''Rate Limit Popover '' @ emdash @ '' Detailed API rate limit breakdown'')
      else if target = Some ''backup'' then
        Some (''Backup & Restore '' @ emdash @ '' Full data backup to file'')
      else None)"

text \<open>
  \<open>captions[target]\<close> is a property lookup on a plain object: an own key first, then
  what \<open>Object.prototype\<close> provides under that name. A missing \<open>data-tab\<close> makes the
  key the string \<open>undefined\<close>. Every value found is truthy (the captions are non-empty
  strings, the inherited values are functions and objects); \<open>None\<close> is \<open>undefined\<close>.
\<close>

definition captionLookup :: "page \<Rightarrow> string option \<Rightarrow> string option" where
  "captionLookup p target =
     (case captions target of
        Some caption \<Rightarrow> Some caption
      | None \<Rightarrow>
          objectPrototype p (case target of None \<Rightarrow> ''undefined'' | Some key \<Rightarrow> key))"

text \<open>The body of the \<open>screenshotTabs.forEach\<close> callback in \<open>switchScreenshotTab\<close>.\<close>

definition updateTab :: "int \<Rightarrow> nat \<Rightarrow> element \<Rightarrow> element" where
  "updateTab index i t =
     setAttribute ''tabindex'' (if int i = index then ''0'' else ''-1'')
       (setAttribute ''aria-selected'' (if int i = index then ''true'' else ''false'')
         (toggleClass ''active'' (int i = index) t))"

text \<open>
  \<open>switchScreenshotTab(index)\<close>. \<open>screenshotTabs[index]\<close> is \<open>undefined\<close> for an
  index outside the list, and the function returns there.
\<close>

definition switchScreenshotTab :: "int \<Rightarrow> page \<Rightarrow> page" where
  "switchScreenshotTab index p =
     (if length (screenshotTabs p) = 0 then p
      else if index < 0 \<or> int (length (screenshotTabs p)) \<le> index then p
      else
        let tab = screenshotTabs p ! nat index;
            target = dataset tab ''tab''
        in p\<lparr> screenshotTabs := forEachIndexed (updateTab index) 0 (screenshotTabs p),
               screenshots :=
                 map (\<lambda>img. toggleClass ''active'' (dataset img ''screenshot'' = target) img)
                   (screenshots p),
               screenshotCaption :=
                 (case screenshotCaption p of
                    None \<Rightarrow> None
                  | Some c \<Rightarrow>
                      (case captionLookup p target of
                         None \<Rightarrow> Some c
                       | Some text \<Rightarrow> Some (c\<lparr>textContent := text\<rparr>))) \<rparr>)"

definition getActiveScreenshotIndex :: "page \<Rightarrow> int" where
  "getActiveScreenshotIndex p = findIndex (contains ''active'') (screenshotTabs p)"

subsection \<open>Autoplay\<close>

text \<open>
  \<open>if (state.screenshotAutoplay)\<close> tests the handle for truthiness: \<open>null\<close> and \<open>0\<close>
  are falsy. \<open>setInterval\<close> creates a timer and returns its handle, \<open>clearInterval\<close>
  removes the timer with that handle.
\<close>

definition truthy_handle :: "nat option \<Rightarrow> bool" where
  "truthy_handle h = (case h of None \<Rightarrow> False | Some n \<Rightarrow> n \<noteq> 0)"

definition startScreenshotAutoplay :: "page \<Rightarrow> page" where
  "startScreenshotAutoplay p =
     (if truthy_handle (screenshotAutoplay (st p)) \<or> prefersReducedMotion p then p
      else
        let h = Suc (intervalCounter p)
        in p\<lparr> intervalCounter := h,
               liveIntervals := h # liveIntervals p,
               st := (st p)\<lparr>screenshotAutoplay := Some h\<rparr> \<rparr>)"

definition stopScreenshotAutoplay :: "page \<Rightarrow> page" where
  "stopScreenshotAutoplay p =
     (case screenshotAutoplay (st p) of
        None \<Rightarrow> p
      | Some h \<Rightarrow>
          if truthy_handle (Some h) then
            p\<lparr> liveIntervals := removeAll h (liveIntervals p),
                st := (st p)\<lparr>screenshotAutoplay := None\<rparr> \<rparr>
          else p)"

text \<open>
  The interval callback. With no tabs \<open>% 0\<close> gives \<open>NaN\<close>, and
  \<open>switchScreenshotTab\<close> returns at its length check whatever the index is.
\<close>

definition autoplayTick :: "page \<Rightarrow> page" where
  "autoplayTick p =
     (if length (screenshotTabs p) = 0 then p
      else
        let currentIndex = getActiveScreenshotIndex p;
            nextIndex = js_rem (currentIndex + 1) (int (length (screenshotTabs p)))
        in switchScreenshotTab nextIndex p)"

subsection \<open>Keyboard navigation\<close>

text \<open>
  \<open>tabs[nextIndex].focus()\<close>: on the tab that already has the focus nothing happens;
  otherwise the focus moves and a \<open>focusin\<close> event is dispatched on the tab, which
  reaches the gallery's \<open>focusin\<close> listener (\<open>stopScreenshotAutoplay\<close>) when the tabs
  are inside the gallery.
\<close>

definition focusTab :: "int \<Rightarrow> page \<Rightarrow> page" where
  "focusTab i p =
     (if focusedTab p = Some (nat i) then p
      else if tabsInGallery p then stopScreenshotAutoplay (p\<lparr>focusedTab := Some (nat i)\<rparr>)
      else p\<lparr>focusedTab := Some (nat i)\<rparr>)"

text \<open>
  The \<open>keydown\<close> listener that \<open>initScreenshotTabs\<close> puts on the tab at position
  \<open>index\<close>. The \<open>switch\<close> has no default branch, so any other key leaves the page
  alone.
\<close>

definition tabKeydown :: "nat \<Rightarrow> string \<Rightarrow> page \<Rightarrow> page" where
  "tabKeydown index key p =
     (let n = int (length (screenshotTabs p)) in
      if key = ''ArrowRight'' \<or> key = ''ArrowDown'' then
        (let nextIndex = js_rem (int index + 1) n
         in switchScreenshotTab nextIndex (focusTab nextIndex p))
      else if key = ''ArrowLeft'' \<or> key = ''ArrowUp'' then
        (let nextIndex = js_rem (int index - 1 + n) n
         in switchScreenshotTab nextIndex (focusTab nextIndex p))
      else if key = ''Home'' then switchScreenshotTab 0 (focusTab 0 p)
      else if key = ''End'' then switchScreenshotTab (n - 1) (focusTab (n - 1) p)
      else p)"

text \<open>
  \<open>initAccessibility\<close>, as far as it writes to the page record: the role and the
  initial \<open>aria-selected\<close> and \<open>tabindex\<close> of each tab. It writes no class.
\<close>

definition initAccessibility :: "page \<Rightarrow> page" where
  "initAccessibility p =
     p\<lparr>screenshotTabs :=
         forEachIndexed
           (\<lambda>index tab.
              setAttribute ''tabindex'' (if index = 0 then ''0'' else ''-1'')
                (setAttribute ''aria-selected'' (if index = 0 then ''true'' else ''false'')
                  (setAttribute ''role'' ''tab'' tab)))
           0 (screenshotTabs p)\<rparr>"

subsection \<open>Swipe gestures\<close>

text \<open>
  \<open>handleSwipe\<close> either returns early or computes the index it hands to
  \<open>switchScreenshotTab\<close>; \<open>swipeTarget\<close> is that index, \<open>None\<close> for the early return.
  The listeners exist only when there is at least one tab.
\<close>

definition swipeTarget :: "page \<Rightarrow> int option" where
  "swipeTarget p =
     (let diffX = touchStartX p - touchEndX p;
          diffY = touchStartY p - touchEndY p
      in if \<bar>diffX\<bar> < swipeThreshold \<or> \<bar>diffY\<bar> > \<bar>diffX\<bar> then None
         else
           let currentIndex = getActiveScreenshotIndex p;
               n = int (length (screenshotTabs p))
           in if diffX > 0 then Some (js_rem (currentIndex + 1) n)
              else Some (js_rem (currentIndex - 1 + n) n))"

definition handleSwipe :: "page \<Rightarrow> page" where
  "handleSwipe p =
     (case swipeTarget p of None \<Rightarrow> p | Some nextIndex \<Rightarrow> switchScreenshotTab nextIndex p)"

definition touchstart :: "int \<Rightarrow> int \<Rightarrow> page \<Rightarrow> page" where
  "touchstart x y p = stopScreenshotAutoplay (p\<lparr>touchStartX := x, touchStartY := y\<rparr>)"

definition touchend :: "int \<Rightarrow> int \<Rightarrow> page \<Rightarrow> page" where
  "touchend x y p = handleSwipe (p\<lparr>touchEndX := x, touchEndY := y\<rparr>)"

subsection \<open>Navbar\<close>

definition handleNavbarScroll :: "page \<Rightarrow> page" where
  "handleNavbarScroll p =
     (case navbar p of
        None \<Rightarrow> p
      | Some nb \<Rightarrow>
          let currentScrollY = scrollY p;
              scrollDiff = currentScrollY - lastScrollY (st p);
              nb1 = toggleClass ''scrolled'' (currentScrollY > scrollThreshold) nb;
              p1 = p\<lparr>navbar := Some nb1\<rparr>;
              p2 =
                (if \<not> isMobile p \<and> currentScrollY > scrollThreshold * 2 then
                   (if scrollDiff > navbarHideThreshold \<and> \<not> isNavbarHidden (st p) then
                      p1\<lparr> navbar := Some (setStyle ''transform'' ''translateY(-100%)'' nb1),
                           st := (st p1)\<lparr>isNavbarHidden := True\<rparr> \<rparr>
                    else if scrollDiff < - navbarHideThreshold \<and> isNavbarHidden (st p) then
                      p1\<lparr> navbar := Some (setStyle ''transform'' ''translateY(0)'' nb1),
                           st := (st p1)\<lparr>isNavbarHidden := False\<rparr> \<rparr>
                    else p1)
                 else
                   p1\<lparr> navbar := Some (setStyle ''transform'' ''translateY(0)'' nb1),
                        st := (st p1)\<lparr>isNavbarHidden := False\<rparr> \<rparr>)
          in p2\<lparr>st := (st p2)\<lparr>lastScrollY := currentScrollY\<rparr>\<rparr>)"

subsection \<open>Scroll reveal\<close>

text \<open>
  \<open>tops i\<close> is \<open>getBoundingClientRect().top\<close> of the reveal element at position \<open>i\<close>,
  which the layout decides. The fallback visits the elements matching
  \<open>.reveal:not(.visible)\<close>.
\<close>

definition handleScrollRevealFallback :: "(nat \<Rightarrow> int) \<Rightarrow> page \<Rightarrow> page" where
  "handleScrollRevealFallback tops p =
     p\<lparr>reveals :=
         forEachIndexed
           (\<lambda>i el. if \<not> contains ''visible'' el \<and> tops i < innerHeight p - revealOffset
                   then addClass ''visible'' el else el)
           0 (reveals p)\<rparr>"

definition initScrollReveal :: "(nat \<Rightarrow> int) \<Rightarrow> page \<Rightarrow> page" where
  "initScrollReveal tops p =
     (if prefersReducedMotion p then p\<lparr>reveals := map (addClass ''visible'') (reveals p)\<rparr>
      else if hasIntersectionObserver p then p\<lparr>observed := {0..<length (reveals p)}\<rparr>
      else handleScrollRevealFallback tops p)"

text \<open>
  The reveal observer's callback. An entry is the position of its target among the reveal
  elements and its \<open>isIntersecting\<close> flag.
\<close>

definition revealEntry :: "nat \<times> bool \<Rightarrow> page \<Rightarrow> page" where
  "revealEntry entry p =
     (if snd entry then
        p\<lparr> reveals := (reveals p)[fst entry := addClass ''visible'' (reveals p ! fst entry)],
            observed := observed p - {fst entry} \<rparr>
      else p)"

definition revealCallback :: "(nat \<times> bool) list \<Rightarrow> page \<Rightarrow> page" where
  "revealCallback entries p = fold revealEntry entries p"

subsection \<open>Events\<close>

text \<open>
  What the listeners registered by \<open>initEventListeners\<close>, \<open>initScreenshotTabs\<close>,
  \<open>initSwipeGestures\<close> and \<open>initScrollReveal\<close> do when the platform delivers an event.
  \<open>Scroll c\<close> is one run of the frame-throttled scroll handler with \<open>window.scrollY = c\<close>;
  of its two calls, \<open>handleBackToTop\<close> writes to the back-to-top button only and is left
  out. The resize handler touches the mobile menu and the particles only, and the
  reduced-motion listener regenerates the particles before it looks at the preference;
  the particles are not part of the page record. A tab listener exists for each tab, the
  touch listeners on the screenshot frame exist when there is a tab, the interval
  callback runs while an interval is alive, and the observer reports on the targets it
  still observes. \<open>TabFocus i\<close> is the user moving the keyboard focus to tab \<open>i\<close>
  (the \<open>focusin\<close> it causes bubbles as for \<open>focus()\<close>), \<open>FocusElsewhere\<close> the focus
  leaving the tabs; a \<open>focusin\<close> that reaches the gallery from another element inside it
  is \<open>GalleryFocusIn\<close>. The tab listeners for \<open>click\<close> and \<open>keydown\<close> run whichever
  element has the focus. \<open>CallStartAutoplay\<close> is a call of \<open>startScreenshotAutoplay\<close>.
\<close>

datatype event =
    Scroll int
  | Resize int
  | ReducedMotionChange bool
  | VisibilityChange bool
  | GalleryMouseEnter
  | GalleryFocusIn
  | TouchStart int int
  | TouchEnd int int
  | TabClick nat
  | TabKeydown nat string
  | TabFocus nat
  | FocusElsewhere
  | AutoplayTick
  | RevealIntersection "(nat \<times> bool) list"
  | CallStartAutoplay

fun dispatch :: "event \<Rightarrow> page \<Rightarrow> page" where
  "dispatch (Scroll c) p = handleNavbarScroll (p\<lparr>scrollY := c\<rparr>)"
| "dispatch (Resize w) p = p\<lparr>innerWidth := w\<rparr>"
| "dispatch (ReducedMotionChange b) p =
     (if prefersReducedMotion (p\<lparr>reducedMotion := b\<rparr>)
      then stopScreenshotAutoplay (p\<lparr>reducedMotion := b\<rparr>)
      else p\<lparr>reducedMotion := b\<rparr>)"
| "dispatch (VisibilityChange h) p =
     (if h then stopScreenshotAutoplay (p\<lparr>documentHidden := h\<rparr>)
      else p\<lparr>documentHidden := h\<rparr>)"
| "dispatch GalleryMouseEnter p = stopScreenshotAutoplay p"
| "dispatch GalleryFocusIn p = stopScreenshotAutoplay p"
| "dispatch (TouchStart x y) p =
     (if length (screenshotTabs p) = 0 then p else touchstart x y p)"
| "dispatch (TouchEnd x y) p =
     (if length (screenshotTabs p) = 0 then p else touchend x y p)"
| "dispatch (TabClick i) p =
     (if i < length (screenshotTabs p) then switchScreenshotTab (int i) p else p)"
| "dispatch (TabKeydown i key) p =
     (if i < length (screenshotTabs p) then tabKeydown i key p else p)"
| "dispatch (TabFocus i) p =
     (if i < length (screenshotTabs p) then focusTab (int i) p else p)"
| "dispatch FocusElsewhere p = p\<lparr>focusedTab := None\<rparr>"
| "dispatch AutoplayTick p = (if liveIntervals p = [] then p else autoplayTick p)"
| "dispatch (RevealIntersection entries) p =
     revealCallback
       (filter (\<lambda>entry. fst entry \<in> observed p \<and> fst entry < length (reveals p)) entries) p"
| "dispatch CallStartAutoplay p = startScreenshotAutoplay p"

definition run :: "event list \<Rightarrow> page \<Rightarrow> page" where
  "run events p = fold dispatch events p"

text \<open>
  What \<open>init\<close> does to the page record when none of its calls throws: of the
  routines it calls, \<open>initAccessibility\<close>, \<open>initScrollReveal\<close> and
  \<open>handleNavbarScroll\<close> write to it, in this order; the others register listeners or
  write elsewhere.
\<close>

definition init_page :: "(nat \<Rightarrow> int) \<Rightarrow> page \<Rightarrow> page" where
  "init_page tops p = handleNavbarScroll (initScrollReveal tops (initAccessibility p))"

subsection \<open>Initialization\<close>

text \<open>
  The body of \<open>init\<close> is one \<open>try\<close> block around a sequence of calls, with a \<open>catch\<close>
  that logs the error. Each call either returns or throws; \<open>throws\<close> says which ones
  throw on the page at hand. The result lists the calls that returned, in order, and the
  call whose error was logged, if any.
\<close>

datatype init_step =
    Step_initAccessibility
  | Step_generateParticles
  | Step_initImageLoadHandlers
  | Step_initLazyLoading
  | Step_initScreenshotTabs
  | Step_initSmoothScroll
  | Step_initDropdownMenus
  | Step_initEventListeners
  | Step_initBackToTop
  | Step_initSwipeGestures
  | Step_initKeyboardShortcuts
  | Step_initScrollReveal
  | Step_initActiveSectionTracking
  | Step_initParallax
  | Step_handleNavbarScroll
  | Step_handleBackToTop
  | Step_initAnimatedCounters
  | Step_initContextMenuPrevention
  | Step_initCopyProtection
  | Step_requestPreloadImages
  | Step_logPerformance

definition init_body :: "init_step list" where
  "init_body =
     [Step_initAccessibility, Step_generateParticles, Step_initImageLoadHandlers,
      Step_initLazyLoading, Step_initScreenshotTabs, Step_initSmoothScroll,
      Step_initDropdownMenus, Step_initEventListeners, Step_initBackToTop,
      Step_initSwipeGestures, Step_initKeyboardShortcuts, Step_initScrollReveal,
      Step_initActiveSectionTracking, Step_initParallax, Step_handleNavbarScroll,
      Step_handleBackToTop, Step_initAnimatedCounters, Step_initContextMenuPrevention,
      Step_initCopyProtection, Step_requestPreloadImages, Step_logPerformance]"

fun try_block :: "(init_step \<Rightarrow> bool) \<Rightarrow> init_step list \<Rightarrow> init_step list \<times> init_step option" where
  "try_block throws [] = ([], None)"
| "try_block throws (s # ss) =
     (if throws s then ([], Some s)
      else (s # fst (try_block throws ss), snd (try_block throws ss)))"

definition init :: "(init_step \<Rightarrow> bool) \<Rightarrow> init_step list \<times> init_step option" where
  "init throws = try_block throws init_body"

text \<open>
  Without \<open>IntersectionObserver\<close>, \<open>initLazyLoading\<close> and \<open>initScrollReveal\<close> test for
  it and fall back, while \<open>initActiveSectionTracking\<close> and \<open>initAnimatedCounters\<close>
  construct an observer unguarded (on a page that has sections with nav links, and
  counters) and so throw.
\<close>

definition throws_without_IntersectionObserver :: "init_step \<Rightarrow> bool" where
  "throws_without_IntersectionObserver s =
     (s = Step_initActiveSectionTracking \<or> s = Step_initAnimatedCounters)"

subsection \<open>Observations\<close>

text \<open>The number of tabs that carry the \<open>active\<close> class.\<close>

definition activeCount :: "page \<Rightarrow> nat" where
  "activeCount p = length (filter (contains ''active'') (screenshotTabs p))"

definition autoplay_consistent :: "page \<Rightarrow> bool" where
  "autoplay_consistent p =
     (case screenshotAutoplay (st p) of
        None \<Rightarrow> liveIntervals p = []
      | Some h \<Rightarrow> h \<noteq> 0 \<and> liveIntervals p = [h])"

definition isVisible :: "page \<Rightarrow> nat \<Rightarrow> bool" where
  "isVisible p i = (i < length (reveals p) \<and> contains ''visible'' (reveals p ! i))"

text \<open>The page on which handleSwipe runs after a touch from (x0, y0) to (x1, y1).\<close>

definition swipePage :: "int \<Rightarrow> int \<Rightarrow> int \<Rightarrow> int \<Rightarrow> page \<Rightarrow> page" where
  "swipePage x0 y0 x1 y1 p = (touchstart x0 y0 p)\<lparr>touchEndX := x1, touchEndY := y1\<rparr>"

subsection \<open>A sample page\<close>

definition sample_tab :: "string \<Rightarrow> bool \<Rightarrow> element" where
  "sample_tab name active =
     \<lparr> classList = (if active then {''screenshot-tab'', ''active''} else {''screenshot-tab''}),
       attributes = Map.empty, dataset = [''tab'' \<mapsto> name], style = Map.empty,
       textContent = name \<rparr>"

definition sample_img :: "string \<Rightarrow> bool \<Rightarrow> element" where
  "sample_img name active =
     \<lparr> classList = (if active then {''active''} else {}),
       attributes = Map.empty, dataset = [''screenshot'' \<mapsto> name], style = Map.empty,
       textContent = [] \<rparr>"

definition sample_plain :: "string \<Rightarrow> element" where
  "sample_plain c =
     \<lparr> classList = {c}, attributes = Map.empty, dataset = Map.empty, style = Map.empty,
       textContent = [] \<rparr>"

definition sample_objectPrototype :: "string \<rightharpoonup> string" where
  "sample_objectPrototype =
     [''constructor'' \<mapsto> ''function Object() { [native code] }'',
      ''toString'' \<mapsto> ''function toString() { [native code] }'',
      ''valueOf'' \<mapsto> ''function valueOf() { [native code] }'',
      ''hasOwnProperty'' \<mapsto> ''function hasOwnProperty() { [native code] }'',
      ''__proto__'' \<mapsto> ''[object Object]'']"

definition sample_page :: page where
  "sample_page =
     \<lparr> st = initial_state,
       navbar = Some (sample_plain ''navbar''),
       screenshotTabs =
         [sample_tab ''home'' True, sample_tab ''stats'' False, sample_tab ''history'' False],
       screenshots =
         [sample_img ''home'' True, sample_img ''stats'' False, sample_img ''history'' False],
       screenshotCaption = Some (sample_plain ''caption''),
       reveals = [sample_plain ''reveal'', sample_plain ''reveal''],
       focusedTab = None,
       tabsInGallery = True,
       observed = {},
       scrollY = 0, innerWidth = 1280, innerHeight = 800,
       reducedMotion = False, documentHidden = False, hasIntersectionObserver = True,
       objectPrototype = sample_objectPrototype,
       liveIntervals = [], intervalCounter = 0,
       touchStartX = 0, touchStartY = 0, touchEndX = 0, touchEndY = 0 \<rparr>"

text \<open>The sample page with markup in which no tab carries the \<open>active\<close> class.\<close>

definition sample_page_no_active :: page where
  "sample_page_no_active =
     sample_page\<lparr>screenshotTabs :=
       [sample_tab ''home'' False, sample_tab ''stats'' False, sample_tab ''history'' False]\<rparr>"

text \<open>Layout for the sample page: the first reveal element is in view, the second is not.\<close>

definition sample_tops :: "nat \<Rightarrow> int" where
  "sample_tops i = 300 + 600 * int i"

section \<open>Facts about the helpers\<close>

lemma stopScreenshotAutoplay_if:
  "stopScreenshotAutoplay p =
     (if truthy_handle (screenshotAutoplay (st p)) then
        p\<lparr> liveIntervals := removeAll (the (screenshotAutoplay (st p))) (liveIntervals p),
            st := (st p)\<lparr>screenshotAutoplay := None\<rparr> \<rparr>
      else p)"
  by (simp add: stopScreenshotAutoplay_def truthy_handle_def split: option.splits)

lemma length_forEachIndexed [simp]: "length (forEachIndexed f i xs) = length xs"
  by (induction xs arbitrary: i) auto

lemma nth_forEachIndexed:
  "j < length xs \<Longrightarrow> forEachIndexed f i xs ! j = f (i + j) (xs ! j)"
proof (induction xs arbitrary: i j)
  case Nil
  then show ?case by simp
next
  case (Cons x xs)
  then show ?case by (cases j) auto
qed

lemma contains_updateTab [simp]: "contains ''active'' (updateTab index j t) = (int j = index)"
  by (simp add: updateTab_def contains_def setAttribute_def toggleClass_def)

lemma aria_updateTab [simp]:
  "attributes (updateTab index j t) ''aria-selected'' = Some (if int j = index then ''true'' else ''false'')"
  by (simp add: updateTab_def setAttribute_def toggleClass_def)

lemma findIndex_first:
  "i < length xs \<Longrightarrow> P (xs ! i) \<Longrightarrow> (\<forall>j < i. \<not> P (xs ! j)) \<Longrightarrow> findIndex P xs = int i"
proof (induction xs arbitrary: i)
  case Nil
  then show ?case by simp
next
  case (Cons x xs)
  show ?case
  proof (cases i)
    case 0
    with Cons.prems show ?thesis by simp
  next
    case (Suc k)
    from Cons.prems Suc have nx: "\<not> P x" by auto
    from Cons.prems Suc have "k < length xs" "P (xs ! k)" "\<forall>j < k. \<not> P (xs ! j)"
      by auto
    then have "findIndex P xs = int k" by (rule Cons.IH)
    with nx Suc show ?thesis by simp
  qed
qed

lemma findIndex_bounds: "- 1 \<le> findIndex P xs \<and> findIndex P xs < int (length xs)"
  by (induction xs) (auto simp: Let_def)

lemma findIndex_found: "x \<in> set xs \<Longrightarrow> P x \<Longrightarrow> 0 \<le> findIndex P xs"
  by (induction xs) (auto simp: Let_def)

lemma findIndex_range:
  "\<exists>x \<in> set xs. P x \<Longrightarrow> 0 \<le> findIndex P xs \<and> findIndex P xs < int (length xs)"
  using findIndex_found [of _ xs P] findIndex_bounds [of P xs] by blast

lemma filter_forEachIndexed:
  "(\<And>j x. P (f j x) = (j = m)) \<Longrightarrow>
   filter P (forEachIndexed f i xs) =
     (if i \<le> m \<and> m < i + length xs then [f m (xs ! (m - i))] else [])"
proof (induction xs arbitrary: i)
  case Nil
  then show ?case by simp
next
  case (Cons x xs)
  show ?case
  proof (cases "i = m")
    case True
    with Cons show ?thesis by simp
  next
    case False
    with Cons show ?thesis by (auto simp: Suc_diff_le nth_Cons')
  qed
qed

lemma count_forEachIndexed:
  "(\<And>j x. P (f j x) = (j = m)) \<Longrightarrow>
   length (filter P (forEachIndexed f i xs)) = (if i \<le> m \<and> m < i + length xs then 1 else 0)"
  by (simp add: filter_forEachIndexed)

lemma switch_tabs_length [simp]:
  "length (screenshotTabs (switchScreenshotTab k p)) = length (screenshotTabs p)"
  by (simp add: switchScreenshotTab_def Let_def)

lemma switch_valid_tabs:
  "0 \<le> k \<Longrightarrow> k < int (length (screenshotTabs p)) \<Longrightarrow>
   screenshotTabs (switchScreenshotTab k p) = forEachIndexed (updateTab k) 0 (screenshotTabs p)"
  by (auto simp add: switchScreenshotTab_def Let_def)

lemma switch_valid_count:
  assumes "0 \<le> k" "k < int (length (screenshotTabs p))"
  shows "activeCount (switchScreenshotTab k p) = 1"
proof -
  have "length (filter (contains ''active'') (forEachIndexed (updateTab k) 0 (screenshotTabs p)))
        = (if 0 \<le> nat k \<and> nat k < 0 + length (screenshotTabs p) then 1 else 0)"
    using assms by (intro count_forEachIndexed) auto
  with assms show ?thesis by (simp add: activeCount_def switch_valid_tabs)
qed

lemma switch_count:
  "activeCount p = 1 \<Longrightarrow> activeCount (switchScreenshotTab k p) = 1"
proof (cases "0 \<le> k \<and> k < int (length (screenshotTabs p))")
  case True
  then show ?thesis by (simp add: switch_valid_count)
next
  case False
  assume "activeCount p = 1"
  moreover from False have "switchScreenshotTab k p = p"
    by (auto simp: switchScreenshotTab_def)
  ultimately show ?thesis by simp
qed

lemma switch_valid_index:
  assumes "i < length (screenshotTabs p)"
  shows "getActiveScreenshotIndex (switchScreenshotTab (int i) p) = int i"
proof -
  let ?ts = "forEachIndexed (updateTab (int i)) 0 (screenshotTabs p)"
  have "findIndex (contains ''active'') ?ts = int i"
    using assms by (intro findIndex_first) (auto simp: nth_forEachIndexed)
  with assms show ?thesis by (simp add: getActiveScreenshotIndex_def switch_valid_tabs)
qed


lemma tabs_stop [simp]: "screenshotTabs (stopScreenshotAutoplay p) = screenshotTabs p"
  by (simp add: stopScreenshotAutoplay_if)

lemma tabs_start [simp]: "screenshotTabs (startScreenshotAutoplay p) = screenshotTabs p"
  by (simp add: startScreenshotAutoplay_def Let_def)

lemma tabs_navbar [simp]: "screenshotTabs (handleNavbarScroll p) = screenshotTabs p"
  by (simp add: handleNavbarScroll_def Let_def split: option.splits)

lemma tabs_revealEntry [simp]: "screenshotTabs (revealEntry e p) = screenshotTabs p"
  by (simp add: revealEntry_def)

lemma tabs_revealCallback [simp]: "screenshotTabs (revealCallback es p) = screenshotTabs p"
  unfolding revealCallback_def by (induction es arbitrary: p) simp_all

lemma tabs_focusTab [simp]: "screenshotTabs (focusTab k p) = screenshotTabs p"
  by (simp add: focusTab_def)

lemma activeCount_same_tabs: "screenshotTabs q = screenshotTabs p \<Longrightarrow> activeCount q = activeCount p"
  by (simp add: activeCount_def)

lemma tabKeydown_count: "activeCount p = 1 \<Longrightarrow> activeCount (tabKeydown i key p) = 1"
proof -
  assume a: "activeCount p = 1"
  have f: "activeCount (focusTab k p) = 1" for k
    using a by (simp add: activeCount_def)
  show ?thesis
    unfolding tabKeydown_def Let_def using a f by (simp add: switch_count)
qed

lemma handleSwipe_count: "activeCount p = 1 \<Longrightarrow> activeCount (handleSwipe p) = 1"
  by (simp add: handleSwipe_def switch_count split: option.splits)

lemma autoplayTick_count: "activeCount p = 1 \<Longrightarrow> activeCount (autoplayTick p) = 1"
  by (simp add: autoplayTick_def Let_def switch_count)

lemma activeCount_unchanged [simp]:
  "activeCount (stopScreenshotAutoplay p) = activeCount p"
  "activeCount (startScreenshotAutoplay p) = activeCount p"
  "activeCount (handleNavbarScroll p) = activeCount p"
  "activeCount (revealCallback es p) = activeCount p"
  "activeCount (p\<lparr>scrollY := c\<rparr>) = activeCount p"
  "activeCount (p\<lparr>innerWidth := w\<rparr>) = activeCount p"
  "activeCount (p\<lparr>reducedMotion := b\<rparr>) = activeCount p"
  "activeCount (p\<lparr>documentHidden := b\<rparr>) = activeCount p"
  "activeCount (p\<lparr>touchStartX := x, touchStartY := y\<rparr>) = activeCount p"
  "activeCount (p\<lparr>touchEndX := x, touchEndY := y\<rparr>) = activeCount p"
  "activeCount (focusTab k p) = activeCount p"
  "activeCount (p\<lparr>focusedTab := f\<rparr>) = activeCount p"
  by (simp_all add: activeCount_def)

lemma dispatch_count: "activeCount p = 1 \<Longrightarrow> activeCount (dispatch e p) = 1"
  by (cases e)
    (simp_all add: touchstart_def touchend_def switch_count tabKeydown_count
      handleSwipe_count autoplayTick_count)

lemma run_count: "activeCount p = 1 \<Longrightarrow> activeCount (run events p) = 1"
  unfolding run_def by (induction events arbitrary: p) (simp_all add: dispatch_count)

lemma dispatch_tabs_length [simp]:
  "length (screenshotTabs (dispatch e p)) = length (screenshotTabs p)"
  by (cases e)
    (simp_all add: touchstart_def touchend_def handleSwipe_def tabKeydown_def
      autoplayTick_def Let_def split: option.splits)

lemma run_tabs_length [simp]: "length (screenshotTabs (run events p)) = length (screenshotTabs p)"
  unfolding run_def by (induction events arbitrary: p) simp_all

lemma active_index_in_range:
  assumes "activeCount p = 1"
  shows "0 \<le> getActiveScreenshotIndex p \<and> getActiveScreenshotIndex p < int (length (screenshotTabs p))"
proof -
  from assms have "filter (contains ''active'') (screenshotTabs p) \<noteq> []"
    by (auto simp: activeCount_def)
  then have "\<exists>x \<in> set (screenshotTabs p). contains ''active'' x"
    by (simp add: filter_empty_conv)
  then show ?thesis
    unfolding getActiveScreenshotIndex_def by (rule findIndex_range)
qed

lemma timer_switch [simp]:
  "liveIntervals (switchScreenshotTab k p) = liveIntervals p"
  "screenshotAutoplay (st (switchScreenshotTab k p)) = screenshotAutoplay (st p)"
  by (simp_all add: switchScreenshotTab_def Let_def)

lemma timer_navbar [simp]:
  "liveIntervals (handleNavbarScroll p) = liveIntervals p"
  "screenshotAutoplay (st (handleNavbarScroll p)) = screenshotAutoplay (st p)"
  by (simp_all add: handleNavbarScroll_def Let_def split: option.splits)

lemma timer_revealEntry [simp]:
  "liveIntervals (revealEntry e p) = liveIntervals p"
  "screenshotAutoplay (st (revealEntry e p)) = screenshotAutoplay (st p)"
  by (simp_all add: revealEntry_def)

lemma timer_revealCallback [simp]:
  "liveIntervals (revealCallback es p) = liveIntervals p"
  "screenshotAutoplay (st (revealCallback es p)) = screenshotAutoplay (st p)"
  unfolding revealCallback_def by (induction es arbitrary: p) simp_all

lemma timer_handleSwipe [simp]:
  "liveIntervals (handleSwipe p) = liveIntervals p"
  "screenshotAutoplay (st (handleSwipe p)) = screenshotAutoplay (st p)"
  by (simp_all add: handleSwipe_def split: option.splits)

lemma timer_autoplayTick [simp]:
  "liveIntervals (autoplayTick p) = liveIntervals p"
  "screenshotAutoplay (st (autoplayTick p)) = screenshotAutoplay (st p)"
  by (simp_all add: autoplayTick_def Let_def)

lemma consistent_same_timer:
  "liveIntervals q = liveIntervals p \<Longrightarrow>
   screenshotAutoplay (st q) = screenshotAutoplay (st p) \<Longrightarrow>
   autoplay_consistent q = autoplay_consistent p"
  by (simp add: autoplay_consistent_def split: option.splits)

lemma stop_clears:
  "autoplay_consistent p \<Longrightarrow>
   screenshotAutoplay (st (stopScreenshotAutoplay p)) = None
   \<and> liveIntervals (stopScreenshotAutoplay p) = []"
  by (auto simp: autoplay_consistent_def stopScreenshotAutoplay_if truthy_handle_def
      split: option.splits)

lemma stop_consistent: "autoplay_consistent p \<Longrightarrow> autoplay_consistent (stopScreenshotAutoplay p)"
  using stop_clears [of p] by (simp add: autoplay_consistent_def)

lemma start_consistent: "autoplay_consistent p \<Longrightarrow> autoplay_consistent (startScreenshotAutoplay p)"
  by (auto simp: autoplay_consistent_def startScreenshotAutoplay_def truthy_handle_def Let_def
      split: option.splits)

lemma focusTab_consistent: "autoplay_consistent p \<Longrightarrow> autoplay_consistent (focusTab k p)"
proof -
  assume a: "autoplay_consistent p"
  then have "autoplay_consistent (p\<lparr>focusedTab := Some (nat k)\<rparr>)"
    by (simp add: autoplay_consistent_def split: option.splits)
  with a show ?thesis
    by (simp add: focusTab_def stop_consistent)
qed

lemma tabKeydown_consistent:
  "autoplay_consistent p \<Longrightarrow> autoplay_consistent (tabKeydown i key p)"
  by (simp add: tabKeydown_def Let_def focusTab_consistent
      consistent_same_timer [of "switchScreenshotTab _ _"])

lemma consistent_env [simp]:
  "autoplay_consistent (p\<lparr>scrollY := c\<rparr>) = autoplay_consistent p"
  "autoplay_consistent (p\<lparr>innerWidth := w\<rparr>) = autoplay_consistent p"
  "autoplay_consistent (p\<lparr>reducedMotion := b\<rparr>) = autoplay_consistent p"
  "autoplay_consistent (p\<lparr>documentHidden := b\<rparr>) = autoplay_consistent p"
  "autoplay_consistent (p\<lparr>touchStartX := x, touchStartY := y\<rparr>) = autoplay_consistent p"
  "autoplay_consistent (p\<lparr>touchEndX := x, touchEndY := y\<rparr>) = autoplay_consistent p"
  "autoplay_consistent (p\<lparr>focusedTab := f\<rparr>) = autoplay_consistent p"
  by (simp_all add: autoplay_consistent_def split: option.splits)

lemma dispatch_consistent:
  "autoplay_consistent p \<Longrightarrow> autoplay_consistent (dispatch e p)"
  by (cases e)
    (simp_all add: stop_consistent start_consistent touchstart_def touchend_def
      focusTab_consistent tabKeydown_consistent
      consistent_same_timer [of "handleNavbarScroll _"]
      consistent_same_timer [of "switchScreenshotTab _ _"]
      consistent_same_timer [of "handleSwipe _"]
      consistent_same_timer [of "autoplayTick _"]
      consistent_same_timer [of "revealCallback _ _"])

lemma run_consistent: "autoplay_consistent p \<Longrightarrow> autoplay_consistent (run events p)"
  unfolding run_def by (induction events arbitrary: p) (simp_all add: dispatch_consistent)

lemma consistent_at_most_one: "autoplay_consistent p \<Longrightarrow> length (liveIntervals p) \<le> 1"
  by (simp add: autoplay_consistent_def split: option.splits)

lemma start_noop_alive:
  "autoplay_consistent p \<Longrightarrow> liveIntervals p \<noteq> [] \<Longrightarrow> startScreenshotAutoplay p = p"
  by (auto simp: autoplay_consistent_def startScreenshotAutoplay_def truthy_handle_def
      split: option.splits)

lemma start_noop_reduced: "prefersReducedMotion p \<Longrightarrow> startScreenshotAutoplay p = p"
  by (simp add: startScreenshotAutoplay_def)

lemma contains_addClass [simp]: "contains c (addClass c el)"
  by (simp add: contains_def addClass_def)

lemma contains_addClass_keeps: "contains c el \<Longrightarrow> contains c (addClass d el)"
  by (simp add: contains_def addClass_def)

lemma reveals_unchanged [simp]:
  "reveals (switchScreenshotTab k p) = reveals p"
  "reveals (handleNavbarScroll p) = reveals p"
  "reveals (stopScreenshotAutoplay p) = reveals p"
  "reveals (startScreenshotAutoplay p) = reveals p"
  by (simp_all add: switchScreenshotTab_def handleNavbarScroll_def stopScreenshotAutoplay_if
      startScreenshotAutoplay_def Let_def split: option.splits)

lemma reveals_focusTab [simp]: "reveals (focusTab k p) = reveals p"
  by (simp add: focusTab_def)

lemma reveals_gallery [simp]:
  "reveals (tabKeydown i key p) = reveals p"
  "reveals (handleSwipe p) = reveals p"
  "reveals (autoplayTick p) = reveals p"
  by (simp_all add: tabKeydown_def handleSwipe_def autoplayTick_def Let_def
      split: option.splits)

lemma isVisible_same_reveals: "reveals q = reveals p \<Longrightarrow> isVisible q i = isVisible p i"
  by (simp add: isVisible_def)

lemma revealEntry_keeps: "isVisible p i \<Longrightarrow> isVisible (revealEntry e p) i"
  by (cases "fst e = i") (auto simp: isVisible_def revealEntry_def contains_addClass_keeps)

lemma revealCallback_keeps: "isVisible p i \<Longrightarrow> isVisible (revealCallback es p) i"
  unfolding revealCallback_def by (induction es arbitrary: p) (simp_all add: revealEntry_keeps)

lemma fallback_keeps: "isVisible p i \<Longrightarrow> isVisible (handleScrollRevealFallback tops p) i"
  by (simp add: isVisible_def handleScrollRevealFallback_def nth_forEachIndexed)

lemma initScrollReveal_keeps: "isVisible p i \<Longrightarrow> isVisible (initScrollReveal tops p) i"
proof -
  assume v: "isVisible p i"
  then have "isVisible (p\<lparr>reveals := map (addClass ''visible'') (reveals p)\<rparr>) i"
    by (simp add: isVisible_def)
  moreover from v have "isVisible (p\<lparr>observed := {0..<length (reveals p)}\<rparr>) i"
    by (simp add: isVisible_def)
  moreover from v have "isVisible (handleScrollRevealFallback tops p) i"
    by (rule fallback_keeps)
  ultimately show ?thesis
    by (simp add: initScrollReveal_def)
qed

lemma dispatch_keeps: "isVisible p i \<Longrightarrow> isVisible (dispatch e p) i"
proof (cases e)
  case (RevealIntersection es)
  assume "isVisible p i"
  with RevealIntersection show ?thesis by (simp add: revealCallback_keeps)
qed (simp_all add: touchstart_def touchend_def isVisible_def)

lemma run_keeps: "isVisible p i \<Longrightarrow> isVisible (run events p) i"
  unfolding run_def by (induction events arbitrary: p) (simp_all add: dispatch_keeps)

lemma initScrollReveal_reduced:
  "prefersReducedMotion p \<Longrightarrow> i < length (reveals p) \<Longrightarrow> isVisible (initScrollReveal tops p) i"
  by (simp add: initScrollReveal_def isVisible_def)

lemma js_rem_nonneg: "0 \<le> a \<Longrightarrow> 0 < b \<Longrightarrow> js_rem a b = a mod b"
  by (cases "a = 0") (simp_all add: js_rem_def)

lemma switch_selects_int:
  assumes "0 \<le> k" and "k < int (length (screenshotTabs p))"
  shows "getActiveScreenshotIndex (switchScreenshotTab k p) = k"
  using switch_valid_index [of "nat k" p] assms by simp

lemma direction_revealEntry [simp]:
  "scrollDirection (st (revealEntry e p)) = scrollDirection (st p)"
  by (simp add: revealEntry_def)

lemma direction_revealCallback [simp]:
  "scrollDirection (st (revealCallback es p)) = scrollDirection (st p)"
  unfolding revealCallback_def by (induction es arbitrary: p) simp_all

lemma direction_switch [simp]:
  "scrollDirection (st (switchScreenshotTab k p)) = scrollDirection (st p)"
  by (simp add: switchScreenshotTab_def Let_def)

lemma direction_navbar [simp]:
  "scrollDirection (st (handleNavbarScroll p)) = scrollDirection (st p)"
  by (simp add: handleNavbarScroll_def Let_def split: option.splits)

lemma direction_autoplay [simp]:
  "scrollDirection (st (stopScreenshotAutoplay p)) = scrollDirection (st p)"
  "scrollDirection (st (startScreenshotAutoplay p)) = scrollDirection (st p)"
  by (simp_all add: stopScreenshotAutoplay_if startScreenshotAutoplay_def Let_def)

lemma direction_focusTab [simp]:
  "scrollDirection (st (focusTab k p)) = scrollDirection (st p)"
  by (simp add: focusTab_def)

lemma direction_dispatch:
  "scrollDirection (st (dispatch e p)) = scrollDirection (st p)"
  by (cases e)
    (simp_all add: touchstart_def touchend_def handleSwipe_def tabKeydown_def
      autoplayTick_def Let_def split: option.splits)

lemma direction_run: "scrollDirection (st (run events p)) = scrollDirection (st p)"
  unfolding run_def by (induction events arbitrary: p) (simp_all add: direction_dispatch)

lemma lastScrollY_navbar:
  "navbar p \<noteq> None \<Longrightarrow> lastScrollY (st (handleNavbarScroll p)) = scrollY p"
  by (auto simp: handleNavbarScroll_def Let_def)

lemma swipePage_fields [simp]:
  "touchStartX (swipePage x0 y0 x1 y1 p) = x0"
  "touchStartY (swipePage x0 y0 x1 y1 p) = y0"
  "touchEndX (swipePage x0 y0 x1 y1 p) = x1"
  "touchEndY (swipePage x0 y0 x1 y1 p) = y1"
  "screenshotTabs (swipePage x0 y0 x1 y1 p) = screenshotTabs p"
  by (simp_all add: swipePage_def touchstart_def stopScreenshotAutoplay_if)

lemma getActive_swipePage [simp]:
  "getActiveScreenshotIndex (swipePage x0 y0 x1 y1 p) = getActiveScreenshotIndex p"
  by (simp add: getActiveScreenshotIndex_def)

lemma touch_pair:
  "screenshotTabs p \<noteq> [] \<Longrightarrow>
   run [TouchStart x0 y0, TouchEnd x1 y1] p = handleSwipe (swipePage x0 y0 x1 y1 p)"
  by (simp add: run_def touchend_def swipePage_def touchstart_def)

lemma swipeTarget_dispatched:
  "(swipeTarget (swipePage x0 y0 x1 y1 p) \<noteq> None)
     = (swipeThreshold \<le> \<bar>x0 - x1\<bar> \<and> \<bar>y0 - y1\<bar> \<le> \<bar>x0 - x1\<bar>)"
  by (auto simp: swipeTarget_def Let_def)

lemma swipe_next:
  assumes "getActiveScreenshotIndex p = int i" "i < length (screenshotTabs p)"
    "swipeThreshold \<le> \<bar>x0 - x1\<bar>" "\<bar>y0 - y1\<bar> \<le> \<bar>x0 - x1\<bar>" "0 < x0 - x1"
  shows "getActiveScreenshotIndex (handleSwipe (swipePage x0 y0 x1 y1 p))
     = (int i + 1) mod int (length (screenshotTabs p))"
proof -
  let ?n = "int (length (screenshotTabs p))"
  let ?q = "swipePage x0 y0 x1 y1 p"
  from assms(2) have n: "0 < ?n" by (cases "screenshotTabs p") simp_all
  have rem: "js_rem (int i + 1) ?n = (int i + 1) mod ?n"
    using n by (intro js_rem_nonneg) linarith+
  have t: "swipeTarget ?q = Some ((int i + 1) mod ?n)"
    using assms rem by (simp add: swipeTarget_def Let_def)
  have "getActiveScreenshotIndex (switchScreenshotTab ((int i + 1) mod ?n) ?q) = (int i + 1) mod ?n"
    using n by (intro switch_selects_int) simp_all
  with t show ?thesis by (simp add: handleSwipe_def)
qed

lemma swipe_prev:
  assumes "getActiveScreenshotIndex p = int i" "i < length (screenshotTabs p)"
    "swipeThreshold \<le> \<bar>x0 - x1\<bar>" "\<bar>y0 - y1\<bar> \<le> \<bar>x0 - x1\<bar>" "x0 - x1 < 0"
  shows "getActiveScreenshotIndex (handleSwipe (swipePage x0 y0 x1 y1 p))
     = (int i - 1 + int (length (screenshotTabs p))) mod int (length (screenshotTabs p))"
proof -
  let ?n = "int (length (screenshotTabs p))"
  let ?q = "swipePage x0 y0 x1 y1 p"
  let ?k = "(int i - 1 + ?n) mod ?n"
  from assms(2) have n: "0 < ?n" by (cases "screenshotTabs p") simp_all
  have rem: "js_rem (int i - 1 + ?n) ?n = ?k"
    using n by (intro js_rem_nonneg) linarith+
  have t: "swipeTarget ?q = Some ?k"
    using assms rem by (simp add: swipeTarget_def Let_def del: mod_add_self2)
  have "0 \<le> ?k" "?k < int (length (screenshotTabs ?q))"
    using n by (simp_all del: mod_add_self2)
  then have "getActiveScreenshotIndex (switchScreenshotTab ?k ?q) = ?k"
    by (rule switch_selects_int)
  with t show ?thesis by (simp add: handleSwipe_def del: mod_add_self2)
qed

lemma swipe_none:
  "swipeTarget q = None \<Longrightarrow> handleSwipe q = q"
  by (simp add: handleSwipe_def)

lemma try_block_ran: "fst (try_block throws ss) = takeWhile (\<lambda>s. \<not> throws s) ss"
  by (induction ss) simp_all

lemma try_block_error:
  "snd (try_block throws ss) = (case dropWhile (\<lambda>s. \<not> throws s) ss of [] \<Rightarrow> None | s # _ \<Rightarrow> Some s)"
  by (induction ss) simp_all

lemma filter_forEachIndexed_same:
  "(\<And>j x. P (f j x) = P x) \<Longrightarrow>
   length (filter P (forEachIndexed f i xs)) = length (filter P xs)"
  by (induction xs arbitrary: i) simp_all

lemma contains_setAttribute [simp]: "contains c (setAttribute name v el) = contains c el"
  by (simp add: contains_def setAttribute_def)

lemma activeCount_initAccessibility [simp]:
  "activeCount (initAccessibility p) = activeCount p"
  by (simp add: activeCount_def initAccessibility_def filter_forEachIndexed_same)

lemma tabs_initScrollReveal [simp]:
  "screenshotTabs (initScrollReveal tops p) = screenshotTabs p"
  by (simp add: initScrollReveal_def handleScrollRevealFallback_def)

lemma activeCount_init_page: "activeCount (init_page tops p) = activeCount p"
proof -
  have "activeCount (initScrollReveal tops (initAccessibility p)) = activeCount (initAccessibility p)"
    by (rule activeCount_same_tabs) simp
  then show ?thesis by (simp add: init_page_def)
qed

lemma tabs_length_init_page [simp]:
  "length (screenshotTabs (init_page tops p)) = length (screenshotTabs p)"
  by (simp add: init_page_def initAccessibility_def)

lemma focus_clears:
  "autoplay_consistent p \<Longrightarrow> tabsInGallery p \<Longrightarrow> focusedTab p \<noteq> Some (nat k) \<Longrightarrow>
   screenshotAutoplay (st (focusTab k p)) = None \<and> liveIntervals (focusTab k p) = []"
proof -
  assume a: "autoplay_consistent p" and g: "tabsInGallery p" and f: "focusedTab p \<noteq> Some (nat k)"
  from a have "autoplay_consistent (p\<lparr>focusedTab := Some (nat k)\<rparr>)" by simp
  from stop_clears [OF this] g f show ?thesis by (simp add: focusTab_def)
qed

lemma keydown_right_clears:
  assumes "autoplay_consistent p" "tabsInGallery p" "i < length (screenshotTabs p)"
    "focusedTab p = Some i" "1 < length (screenshotTabs p)"
  shows "screenshotAutoplay (st (tabKeydown i ''ArrowRight'' p)) = None
    \<and> liveIntervals (tabKeydown i ''ArrowRight'' p) = []"
proof -
  let ?n = "int (length (screenshotTabs p))"
  have rem: "js_rem (int i + 1) ?n = (int i + 1) mod ?n"
    using assms(5) by (intro js_rem_nonneg) linarith+
  have "(int i + 1) mod ?n \<noteq> int i"
  proof (cases "int i + 1 < ?n")
    case True
    then show ?thesis by simp
  next
    case False
    with assms(3) have "int i + 1 = ?n" by linarith
    then have "(int i + 1) mod ?n = 0" by simp
    moreover from \<open>int i + 1 = ?n\<close> assms(5) have "int i \<noteq> 0" by linarith
    ultimately show ?thesis by simp
  qed
  moreover have "0 < ?n" using assms(5) by linarith
  then have "0 \<le> (int i + 1) mod ?n" by (rule pos_mod_sign)
  ultimately have "nat ((int i + 1) mod ?n) \<noteq> i" by linarith
  note ne = this
  from ne assms(4) have "focusedTab p \<noteq> Some (nat ((int i + 1) mod ?n))" by simp
  from focus_clears [OF assms(1) assms(2) this] show ?thesis
    by (simp add: tabKeydown_def Let_def rem)
qed

lemma focusedTab_unchanged [simp]:
  "focusedTab (switchScreenshotTab k p) = focusedTab p"
  "focusedTab (stopScreenshotAutoplay p) = focusedTab p"
  by (simp_all add: switchScreenshotTab_def stopScreenshotAutoplay_if Let_def)

lemma focus_moves_clears:
  assumes "autoplay_consistent p" "tabsInGallery p" "focusedTab (focusTab k p) \<noteq> focusedTab p"
  shows "screenshotAutoplay (st (focusTab k p)) = None \<and> liveIntervals (focusTab k p) = []"
proof (cases "focusedTab p = Some (nat k)")
  case True
  then have "focusTab k p = p" by (simp add: focusTab_def)
  with assms(3) show ?thesis by simp
next
  case False
  from focus_clears [OF assms(1) assms(2) False] show ?thesis .
qed

lemma keydown_moves_clears:
  assumes "autoplay_consistent p" "tabsInGallery p"
    "focusedTab (tabKeydown i key p) \<noteq> focusedTab p"
  shows "screenshotAutoplay (st (tabKeydown i key p)) = None
    \<and> liveIntervals (tabKeydown i key p) = []"
proof -
  have step: "screenshotAutoplay (st (switchScreenshotTab k (focusTab k p))) = None
      \<and> liveIntervals (switchScreenshotTab k (focusTab k p)) = []"
    if "focusedTab (switchScreenshotTab k (focusTab k p)) \<noteq> focusedTab p" for k
    using that focus_moves_clears [OF assms(1) assms(2), of k] by simp
  from assms(3) step show ?thesis
    unfolding tabKeydown_def Let_def by (auto split: if_splits)
qed

section \<open>Properties\<close>

text \<open>
  C10. Called with an index outside \<open>[0, N)\<close> (negative, at least \<open>N\<close>, or when there
  are no tabs at all), \<open>switchScreenshotTab\<close> returns and leaves the page as it was:
  tab classes and attributes, screenshot classes and the caption are unchanged.
\<close>

theorem switchScreenshotTab_out_of_range:
  "index < 0 \<or> int (length (screenshotTabs p)) \<le> index \<Longrightarrow> switchScreenshotTab index p = p"
  by (auto simp: switchScreenshotTab_def)

theorem switchScreenshotTab_out_of_range_witness:
  "switchScreenshotTab (- 1) sample_page = sample_page
   \<and> switchScreenshotTab 3 sample_page = sample_page
   \<and> switchScreenshotTab 0 (sample_page\<lparr>screenshotTabs := []\<rparr>)
       = sample_page\<lparr>screenshotTabs := []\<rparr>"
  using switchScreenshotTab_out_of_range [of "- 1" sample_page]
    switchScreenshotTab_out_of_range [of 3 sample_page]
    switchScreenshotTab_out_of_range [of 0 "sample_page\<lparr>screenshotTabs := []\<rparr>"]
  by (simp add: sample_page_def)

text \<open>
  C2 (as the script behaves). For a gallery with \<open>N\<close> tabs and \<open>i\<close> in \<open>[0, N)\<close>,
  \<open>switchScreenshotTab(i)\<close> makes tab \<open>i\<close> the only tab with the \<open>active\<close> class,
  with \<open>aria-selected\<close> \<open>true\<close> on tab \<open>i\<close> and \<open>false\<close> on every other tab, and
  reading the active index afterwards yields \<open>i\<close>. After such a call, whatever events
  follow, exactly one tab is active and the active index is in \<open>[0, N)\<close>.
  Initialization leaves the number of active tabs as the markup has it, so after
  initialization the same holds at all times on a page whose markup has exactly one
  active tab.
\<close>

theorem switchScreenshotTab_selects:
  assumes "i < length (screenshotTabs p)"
  shows "length (screenshotTabs (switchScreenshotTab (int i) p)) = length (screenshotTabs p)
    \<and> (\<forall>j < length (screenshotTabs p).
          contains ''active'' (screenshotTabs (switchScreenshotTab (int i) p) ! j) = (j = i)
          \<and> attributes (screenshotTabs (switchScreenshotTab (int i) p) ! j) ''aria-selected''
              = Some (if j = i then ''true'' else ''false''))
    \<and> getActiveScreenshotIndex (switchScreenshotTab (int i) p) = int i
    \<and> activeCount (run events (switchScreenshotTab (int i) p)) = 1
    \<and> 0 \<le> getActiveScreenshotIndex (run events (switchScreenshotTab (int i) p))
    \<and> getActiveScreenshotIndex (run events (switchScreenshotTab (int i) p))
        < int (length (screenshotTabs p))
    \<and> (activeCount p = 1 \<longrightarrow>
          activeCount (run events p) = 1
          \<and> 0 \<le> getActiveScreenshotIndex (run events p)
          \<and> getActiveScreenshotIndex (run events p) < int (length (screenshotTabs p)))
    \<and> activeCount (init_page tops p) = activeCount p
    \<and> (activeCount p = 1 \<longrightarrow>
          activeCount (run events (init_page tops p)) = 1
          \<and> 0 \<le> getActiveScreenshotIndex (run events (init_page tops p))
          \<and> getActiveScreenshotIndex (run events (init_page tops p))
              < int (length (screenshotTabs p)))"
proof -
  let ?q = "switchScreenshotTab (int i) p"
  have tabs: "screenshotTabs ?q = forEachIndexed (updateTab (int i)) 0 (screenshotTabs p)"
    using assms by (simp add: switch_valid_tabs)
  have each: "\<forall>j < length (screenshotTabs p).
      contains ''active'' (screenshotTabs ?q ! j) = (j = i)
      \<and> attributes (screenshotTabs ?q ! j) ''aria-selected''
          = Some (if j = i then ''true'' else ''false'')"
    by (simp add: tabs nth_forEachIndexed)
  have one: "activeCount ?q = 1"
    using assms by (simp add: switch_valid_count)
  then have later: "activeCount (run events ?q) = 1"
    by (rule run_count)
  have range: "0 \<le> getActiveScreenshotIndex (run events ?q)
      \<and> getActiveScreenshotIndex (run events ?q) < int (length (screenshotTabs p))"
    using active_index_in_range [OF later] by simp
  have from_one: "activeCount (run events r) = 1
      \<and> 0 \<le> getActiveScreenshotIndex (run events r)
      \<and> getActiveScreenshotIndex (run events r) < int (length (screenshotTabs r))"
    if "activeCount r = 1" for r
  proof -
    from that have "activeCount (run events r) = 1" by (rule run_count)
    with active_index_in_range [OF this] show ?thesis by simp
  qed
  have general: "activeCount p = 1 \<longrightarrow>
      activeCount (run events p) = 1
      \<and> 0 \<le> getActiveScreenshotIndex (run events p)
      \<and> getActiveScreenshotIndex (run events p) < int (length (screenshotTabs p))"
    using from_one [of p] by blast
  have after_init: "activeCount p = 1 \<longrightarrow>
      activeCount (run events (init_page tops p)) = 1
      \<and> 0 \<le> getActiveScreenshotIndex (run events (init_page tops p))
      \<and> getActiveScreenshotIndex (run events (init_page tops p))
          < int (length (screenshotTabs p))"
    using from_one [of "init_page tops p"] by (simp add: activeCount_init_page)
  from each one later range general after_init switch_valid_index [OF assms] show ?thesis
    by (simp add: activeCount_init_page)
qed

theorem switchScreenshotTab_selects_witness:
  "(2::nat) < length (screenshotTabs sample_page)
   \<and> activeCount sample_page = 1
   \<and> getActiveScreenshotIndex (switchScreenshotTab 2 sample_page) = 2
   \<and> activeCount (run [TabClick 1, AutoplayTick] (switchScreenshotTab 2 sample_page)) = 1
   \<and> activeCount (run [TabClick 1, AutoplayTick] sample_page) = 1
   \<and> activeCount (run [TabClick 1, AutoplayTick] (init_page sample_tops sample_page)) = 1"
  using switchScreenshotTab_selects [of 2 sample_page "[TabClick 1, AutoplayTick]" sample_tops]
  by (simp add: sample_page_def activeCount_def sample_tab_def contains_def)

text \<open>
  C2 as stated fails: nothing in \<open>init\<close> gives a tab the \<open>active\<close> class. On a page
  whose markup marks no tab active, no entry is active after initialization and the
  active index reads \<open>-1\<close>, also after further events, until a tab is selected.
\<close>

theorem no_active_after_init_counterexample:
  "activeCount (init_page sample_tops sample_page_no_active) = 0
   \<and> getActiveScreenshotIndex (init_page sample_tops sample_page_no_active) = - 1
   \<and> activeCount (run [Scroll 10, GalleryMouseEnter] (init_page sample_tops sample_page_no_active)) = 0
   \<and> getActiveScreenshotIndex
        (run [Scroll 10, GalleryMouseEnter] (init_page sample_tops sample_page_no_active)) = - 1"
  by (simp add: run_def init_page_def initAccessibility_def initScrollReveal_def
      handleNavbarScroll_def stopScreenshotAutoplay_def prefersReducedMotion_def
      activeCount_def getActiveScreenshotIndex_def contains_def setAttribute_def
      toggleClass_def setStyle_def isMobile_def mobileBreakpoint_def scrollThreshold_def
      navbarHideThreshold_def sample_page_no_active_def sample_page_def sample_tab_def
      sample_plain_def initial_state_def Let_def)

text \<open>
  C3 (as the script behaves). Starting from a page with no autoplay timer, after every
  sequence of events at most one interval timer is alive;
  \<open>startScreenshotAutoplay\<close> called while a timer is alive changes nothing; it changes
  nothing either, and so creates no timer, while reduced motion is preferred. The handle
  is cleared and the timer gone after these interactions: \<open>mouseenter\<close> and \<open>focusin\<close>
  on the gallery, \<open>touchstart\<close> on the screenshot frame, and, when the tabs are inside
  the gallery, the focus moving to a tab, by the user or by a key that moves the focus
  (as \<open>ArrowRight\<close> on the focused tab of several does); also when the document
  becomes hidden and when the reduced-motion preference turns on. The tab's \<open>click\<close>
  listener leaves the timer as it is.
\<close>

theorem autoplay_single_timer:
  assumes "screenshotAutoplay (st p) = None" and "liveIntervals p = []"
  shows "length (liveIntervals (run events p)) \<le> 1
    \<and> (liveIntervals (run events p) \<noteq> [] \<longrightarrow>
          startScreenshotAutoplay (run events p) = run events p)
    \<and> (prefersReducedMotion (run events p) \<longrightarrow>
          startScreenshotAutoplay (run events p) = run events p)
    \<and> (\<forall>e \<in> {GalleryMouseEnter, GalleryFocusIn, VisibilityChange True, ReducedMotionChange True}.
          screenshotAutoplay (st (dispatch e (run events p))) = None
          \<and> liveIntervals (dispatch e (run events p)) = [])
    \<and> (screenshotTabs p \<noteq> [] \<longrightarrow>
          screenshotAutoplay (st (dispatch (TouchStart x y) (run events p))) = None
          \<and> liveIntervals (dispatch (TouchStart x y) (run events p)) = [])
    \<and> (tabsInGallery (run events p) \<and> i < length (screenshotTabs p)
          \<and> focusedTab (run events p) \<noteq> Some i \<longrightarrow>
          screenshotAutoplay (st (dispatch (TabFocus i) (run events p))) = None
          \<and> liveIntervals (dispatch (TabFocus i) (run events p)) = [])
    \<and> (tabsInGallery (run events p) \<and> i < length (screenshotTabs p)
          \<and> focusedTab (run events p) = Some i \<and> 1 < length (screenshotTabs p) \<longrightarrow>
          screenshotAutoplay (st (dispatch (TabKeydown i ''ArrowRight'') (run events p))) = None
          \<and> liveIntervals (dispatch (TabKeydown i ''ArrowRight'') (run events p)) = [])
    \<and> (tabsInGallery (run events p) \<and> i < length (screenshotTabs p)
          \<and> focusedTab (dispatch (TabKeydown i key) (run events p)) \<noteq> focusedTab (run events p)
          \<longrightarrow>
          screenshotAutoplay (st (dispatch (TabKeydown i key) (run events p))) = None
          \<and> liveIntervals (dispatch (TabKeydown i key) (run events p)) = [])
    \<and> screenshotAutoplay (st (dispatch (TabClick i) (run events p)))
        = screenshotAutoplay (st (run events p))
    \<and> liveIntervals (dispatch (TabClick i) (run events p)) = liveIntervals (run events p)"
proof -
  let ?q = "run events p"
  from assms have "autoplay_consistent p"
    by (simp add: autoplay_consistent_def)
  then have inv: "autoplay_consistent ?q"
    by (rule run_consistent)
  have one: "length (liveIntervals ?q) \<le> 1"
    using inv by (rule consistent_at_most_one)
  have alive: "liveIntervals ?q \<noteq> [] \<longrightarrow> startScreenshotAutoplay ?q = ?q"
    using inv by (simp add: start_noop_alive)
  have reduced: "prefersReducedMotion ?q \<longrightarrow> startScreenshotAutoplay ?q = ?q"
    by (simp add: start_noop_reduced)
  have stop: "screenshotAutoplay (st (stopScreenshotAutoplay ?q)) = None
      \<and> liveIntervals (stopScreenshotAutoplay ?q) = []"
    using inv by (rule stop_clears)
  have "autoplay_consistent (?q\<lparr>reducedMotion := True\<rparr>)"
    using inv by simp
  then have stop_rm: "screenshotAutoplay (st (stopScreenshotAutoplay (?q\<lparr>reducedMotion := True\<rparr>))) = None
      \<and> liveIntervals (stopScreenshotAutoplay (?q\<lparr>reducedMotion := True\<rparr>)) = []"
    by (rule stop_clears)
  have "autoplay_consistent (?q\<lparr>documentHidden := True\<rparr>)"
    using inv by simp
  then have stop_hidden: "screenshotAutoplay (st (stopScreenshotAutoplay (?q\<lparr>documentHidden := True\<rparr>))) = None
      \<and> liveIntervals (stopScreenshotAutoplay (?q\<lparr>documentHidden := True\<rparr>)) = []"
    by (rule stop_clears)
  have "autoplay_consistent (?q\<lparr>touchStartX := x, touchStartY := y\<rparr>)"
    using inv by simp
  then have stop_touch: "screenshotAutoplay (st (touchstart x y ?q)) = None
      \<and> liveIntervals (touchstart x y ?q) = []"
    unfolding touchstart_def by (rule stop_clears)
  have tabs: "screenshotTabs p \<noteq> [] \<longrightarrow> length (screenshotTabs ?q) \<noteq> 0"
    by simp
  have focus: "tabsInGallery ?q \<and> i < length (screenshotTabs p) \<and> focusedTab ?q \<noteq> Some i \<longrightarrow>
      screenshotAutoplay (st (dispatch (TabFocus i) ?q)) = None
      \<and> liveIntervals (dispatch (TabFocus i) ?q) = []"
    using focus_clears [OF inv, of "int i"] by simp
  have key: "tabsInGallery ?q \<and> i < length (screenshotTabs p)
      \<and> focusedTab ?q = Some i \<and> 1 < length (screenshotTabs p) \<longrightarrow>
      screenshotAutoplay (st (dispatch (TabKeydown i ''ArrowRight'') ?q)) = None
      \<and> liveIntervals (dispatch (TabKeydown i ''ArrowRight'') ?q) = []"
    using keydown_right_clears [OF inv, of i] by simp
  have moved: "tabsInGallery ?q \<and> i < length (screenshotTabs p)
      \<and> focusedTab (dispatch (TabKeydown i key) ?q) \<noteq> focusedTab ?q \<longrightarrow>
      screenshotAutoplay (st (dispatch (TabKeydown i key) ?q)) = None
      \<and> liveIntervals (dispatch (TabKeydown i key) ?q) = []"
    using keydown_moves_clears [OF inv, of i key] by simp
  have click: "screenshotAutoplay (st (dispatch (TabClick i) ?q)) = screenshotAutoplay (st ?q)
      \<and> liveIntervals (dispatch (TabClick i) ?q) = liveIntervals ?q"
    by simp
  from one alive reduced stop stop_rm stop_hidden stop_touch tabs
  have first: "length (liveIntervals ?q) \<le> 1
    \<and> (liveIntervals ?q \<noteq> [] \<longrightarrow> startScreenshotAutoplay ?q = ?q)
    \<and> (prefersReducedMotion ?q \<longrightarrow> startScreenshotAutoplay ?q = ?q)
    \<and> (\<forall>e \<in> {GalleryMouseEnter, GalleryFocusIn, VisibilityChange True, ReducedMotionChange True}.
          screenshotAutoplay (st (dispatch e ?q)) = None \<and> liveIntervals (dispatch e ?q) = [])
    \<and> (screenshotTabs p \<noteq> [] \<longrightarrow>
          screenshotAutoplay (st (dispatch (TouchStart x y) ?q)) = None
          \<and> liveIntervals (dispatch (TouchStart x y) ?q) = [])"
    by (simp add: prefersReducedMotion_def)
  from first focus key moved click show ?thesis
    by (elim conjE) (intro conjI; assumption)
qed

theorem autoplay_single_timer_witness:
  "screenshotAutoplay (st sample_page) = None \<and> liveIntervals sample_page = []
   \<and> liveIntervals (run [CallStartAutoplay, AutoplayTick, CallStartAutoplay] sample_page) = [1]
   \<and> startScreenshotAutoplay (run [CallStartAutoplay, AutoplayTick, CallStartAutoplay] sample_page)
       = run [CallStartAutoplay, AutoplayTick, CallStartAutoplay] sample_page
   \<and> liveIntervals (dispatch GalleryMouseEnter
         (run [CallStartAutoplay, AutoplayTick, CallStartAutoplay] sample_page)) = []
   \<and> liveIntervals (dispatch (TouchStart 5 5)
         (run [CallStartAutoplay, AutoplayTick, CallStartAutoplay] sample_page)) = []
   \<and> liveIntervals (dispatch (TabFocus 1)
         (run [CallStartAutoplay, AutoplayTick, CallStartAutoplay] sample_page)) = []"
proof -
  let ?es = "[CallStartAutoplay, AutoplayTick, CallStartAutoplay]"
  have start: "screenshotAutoplay (st sample_page) = None" "liveIntervals sample_page = []"
    by (simp_all add: sample_page_def initial_state_def)
  have tabs: "screenshotTabs sample_page \<noteq> []" "1 < length (screenshotTabs sample_page)"
    by (simp_all add: sample_page_def)
  have alive: "liveIntervals (run ?es sample_page) = [1]"
    by (simp add: run_def startScreenshotAutoplay_def truthy_handle_def prefersReducedMotion_def
        sample_page_def initial_state_def Let_def)
  have focus: "tabsInGallery (run ?es sample_page)" "focusedTab (run ?es sample_page) \<noteq> Some 1"
    by (simp_all add: run_def startScreenshotAutoplay_def truthy_handle_def
        prefersReducedMotion_def autoplayTick_def switchScreenshotTab_def
        sample_page_def initial_state_def Let_def)
  from autoplay_single_timer [OF start, of ?es 5 5 1] start tabs alive focus
  show ?thesis by simp
qed

text \<open>
  C3 as stated fails for a click on a tab, which is an explicit interaction with the
  gallery: with the pointer already over the gallery and autoplay started after that, the
  click selects the tab and the timer stays alive.
\<close>

theorem tab_click_keeps_timer_counterexample:
  "getActiveScreenshotIndex (run [GalleryMouseEnter, CallStartAutoplay, TabClick 1] sample_page) = 1
   \<and> screenshotAutoplay (st (run [GalleryMouseEnter, CallStartAutoplay, TabClick 1] sample_page)) = Some 1
   \<and> liveIntervals (run [GalleryMouseEnter, CallStartAutoplay, TabClick 1] sample_page) = [1]"
  by (simp add: run_def stopScreenshotAutoplay_def startScreenshotAutoplay_def truthy_handle_def
      prefersReducedMotion_def getActiveScreenshotIndex_def switchScreenshotTab_def
      updateTab_def toggleClass_def setAttribute_def contains_def sample_page_def
      sample_tab_def initial_state_def Let_def)

text \<open>
  C4. A reveal element that carries the \<open>visible\<close> class keeps it through every sequence
  of events (scroll, observer callback, reduced-motion change and all the others),
  through the fallback check and through \<open>initScrollReveal\<close>; and when reduced motion is
  preferred as \<open>initScrollReveal\<close> runs, every reveal element is visible right after it
  and stays so.
\<close>

theorem reveal_one_way:
  "(isVisible p i \<longrightarrow>
      isVisible (run events p) i
      \<and> isVisible (handleScrollRevealFallback tops p) i
      \<and> isVisible (initScrollReveal tops p) i)
   \<and> (prefersReducedMotion p \<longrightarrow>
        length (reveals (initScrollReveal tops p)) = length (reveals p)
        \<and> (\<forall>j < length (reveals p). isVisible (initScrollReveal tops p) j)
        \<and> (\<forall>j < length (reveals p). isVisible (run events (initScrollReveal tops p)) j))"
proof -
  have "isVisible (run events (initScrollReveal tops p)) j"
    if "prefersReducedMotion p" "j < length (reveals p)" for j
    using that by (intro run_keeps initScrollReveal_reduced)
  moreover have "prefersReducedMotion p \<longrightarrow>
      length (reveals (initScrollReveal tops p)) = length (reveals p)"
    by (simp add: initScrollReveal_def)
  ultimately show ?thesis
    by (simp add: run_keeps fallback_keeps initScrollReveal_keeps initScrollReveal_reduced)
qed

theorem reveal_one_way_witness:
  "isVisible (handleScrollRevealFallback sample_tops sample_page) 0
   \<and> isVisible
        (run [Scroll 2000, ReducedMotionChange True, RevealIntersection [(0, False)]]
          (handleScrollRevealFallback sample_tops sample_page)) 0
   \<and> prefersReducedMotion (sample_page\<lparr>reducedMotion := True\<rparr>)
   \<and> isVisible (initScrollReveal sample_tops (sample_page\<lparr>reducedMotion := True\<rparr>)) 1"
proof -
  have v: "isVisible (handleScrollRevealFallback sample_tops sample_page) 0"
    by (simp add: isVisible_def handleScrollRevealFallback_def sample_page_def sample_tops_def
        sample_plain_def contains_def addClass_def revealOffset_def)
  have r: "prefersReducedMotion (sample_page\<lparr>reducedMotion := True\<rparr>)"
    by (simp add: prefersReducedMotion_def)
  have l: "1 < length (reveals (sample_page\<lparr>reducedMotion := True\<rparr>))"
    by (simp add: sample_page_def)
  from v r l
    reveal_one_way [of "handleScrollRevealFallback sample_tops sample_page" 0
      "[Scroll 2000, ReducedMotionChange True, RevealIntersection [(0, False)]]" sample_tops]
    reveal_one_way [of "sample_page\<lparr>reducedMotion := True\<rparr>" 0 "[]" sample_tops]
  show ?thesis by simp
qed

text \<open>
  C7 (as the script behaves). In a gallery with \<open>N\<close> tabs, a key pressed on the tab at
  index \<open>i\<close> in \<open>[0, N)\<close> (the tab that has the keyboard focus) selects: index
  \<open>N - 1\<close> for \<open>End\<close>, index \<open>0\<close> for \<open>Home\<close>, index \<open>(i + 1) mod N\<close> for
  \<open>ArrowRight\<close>, so that from \<open>N - 1\<close> it wraps to \<open>0\<close>, and index
  \<open>(i - 1 + N) mod N\<close> for \<open>ArrowLeft\<close>. The arrows step from the gallery's current
  (active) index when the key is pressed on the active tab.
\<close>

theorem tabKeydown_selects:
  assumes "i < length (screenshotTabs p)"
  shows "getActiveScreenshotIndex (dispatch (TabKeydown i ''End'') p)
           = int (length (screenshotTabs p)) - 1
    \<and> getActiveScreenshotIndex (dispatch (TabKeydown i ''Home'') p) = 0
    \<and> getActiveScreenshotIndex (dispatch (TabKeydown i ''ArrowRight'') p)
        = (int i + 1) mod int (length (screenshotTabs p))
    \<and> getActiveScreenshotIndex (dispatch (TabKeydown i ''ArrowLeft'') p)
        = (int i - 1 + int (length (screenshotTabs p))) mod int (length (screenshotTabs p))
    \<and> (i = length (screenshotTabs p) - 1 \<longrightarrow>
          getActiveScreenshotIndex (dispatch (TabKeydown i ''ArrowRight'') p) = 0)
    \<and> (getActiveScreenshotIndex p = int i \<longrightarrow>
          getActiveScreenshotIndex (dispatch (TabKeydown i ''ArrowRight'') p)
            = (getActiveScreenshotIndex p + 1) mod int (length (screenshotTabs p))
          \<and> getActiveScreenshotIndex (dispatch (TabKeydown i ''ArrowLeft'') p)
              = (getActiveScreenshotIndex p - 1 + int (length (screenshotTabs p)))
                  mod int (length (screenshotTabs p)))"
proof -
  let ?n = "int (length (screenshotTabs p))"
  from assms have n: "0 < ?n" by (cases "screenshotTabs p") simp_all
  have sel: "getActiveScreenshotIndex (switchScreenshotTab k (focusTab k p)) = k"
    if "0 \<le> k" "k < ?n" for k
    using that by (intro switch_selects_int) simp_all
  have right: "js_rem (int i + 1) ?n = (int i + 1) mod ?n"
    using n by (intro js_rem_nonneg) linarith+
  have left: "js_rem (int i - 1 + ?n) ?n = (int i - 1 + ?n) mod ?n"
    using n by (intro js_rem_nonneg) linarith+
  have sel_end: "getActiveScreenshotIndex (switchScreenshotTab (?n - 1) (focusTab (?n - 1) p)) = ?n - 1"
    using n by (intro sel) linarith+
  have sel_home: "getActiveScreenshotIndex (switchScreenshotTab 0 (focusTab 0 p)) = 0"
    using n by (intro sel) linarith+
  have sel_right: "getActiveScreenshotIndex
      (switchScreenshotTab ((int i + 1) mod ?n) (focusTab ((int i + 1) mod ?n) p))
      = (int i + 1) mod ?n"
    using n by (intro sel) simp_all
  have sel_left: "getActiveScreenshotIndex
      (switchScreenshotTab ((int i - 1 + ?n) mod ?n) (focusTab ((int i - 1 + ?n) mod ?n) p))
      = (int i - 1 + ?n) mod ?n"
    using n by (intro sel pos_mod_sign pos_mod_bound)
  have e: "getActiveScreenshotIndex (tabKeydown i ''End'' p) = ?n - 1"
    by (simp add: tabKeydown_def Let_def sel_end)
  have h: "getActiveScreenshotIndex (tabKeydown i ''Home'' p) = 0"
    by (simp add: tabKeydown_def Let_def sel_home)
  have r: "getActiveScreenshotIndex (tabKeydown i ''ArrowRight'' p) = (int i + 1) mod ?n"
    by (simp only: tabKeydown_def Let_def right sel_right simp_thms if_True)
  have l: "getActiveScreenshotIndex (tabKeydown i ''ArrowLeft'' p) = (int i - 1 + ?n) mod ?n"
    by (simp add: tabKeydown_def Let_def left sel_left del: mod_add_self2)
  have w: "i = length (screenshotTabs p) - 1 \<longrightarrow>
      getActiveScreenshotIndex (tabKeydown i ''ArrowRight'' p) = 0"
  proof
    assume "i = length (screenshotTabs p) - 1"
    with assms have "int i + 1 = ?n" by linarith
    then have "(int i + 1) mod ?n = 0" by simp
    with r show "getActiveScreenshotIndex (tabKeydown i ''ArrowRight'' p) = 0"
      by (simp only:)
  qed
  have a: "getActiveScreenshotIndex p = int i \<longrightarrow>
      getActiveScreenshotIndex (tabKeydown i ''ArrowRight'' p)
        = (getActiveScreenshotIndex p + 1) mod ?n
      \<and> getActiveScreenshotIndex (tabKeydown i ''ArrowLeft'' p)
          = (getActiveScreenshotIndex p - 1 + ?n) mod ?n"
  proof
    assume c: "getActiveScreenshotIndex p = int i"
    from r l show "getActiveScreenshotIndex (tabKeydown i ''ArrowRight'' p)
        = (getActiveScreenshotIndex p + 1) mod ?n
      \<and> getActiveScreenshotIndex (tabKeydown i ''ArrowLeft'' p)
          = (getActiveScreenshotIndex p - 1 + ?n) mod ?n"
      unfolding c by (rule conjI)
  qed
  from assms have d: "dispatch (TabKeydown i key) p = tabKeydown i key p" for key
    by simp
  from e h r l w a show ?thesis
    unfolding d by blast
qed

theorem tabKeydown_selects_witness:
  "(0::nat) < length (screenshotTabs sample_page)
   \<and> getActiveScreenshotIndex sample_page = 0
   \<and> getActiveScreenshotIndex (dispatch (TabKeydown 0 ''End'') sample_page) = 2
   \<and> getActiveScreenshotIndex (dispatch (TabKeydown 0 ''Home'') sample_page) = 0
   \<and> getActiveScreenshotIndex (dispatch (TabKeydown 0 ''ArrowRight'') sample_page) = 1
   \<and> getActiveScreenshotIndex (dispatch (TabKeydown 0 ''ArrowLeft'') sample_page) = 2
   \<and> getActiveScreenshotIndex (dispatch (TabKeydown 2 ''ArrowRight'') sample_page) = 0"
proof -
  have n: "length (screenshotTabs sample_page) = 3"
    by (simp add: sample_page_def)
  then have l0: "(0::nat) < length (screenshotTabs sample_page)"
    and l2: "(2::nat) < length (screenshotTabs sample_page)"
    by simp_all
  have a: "getActiveScreenshotIndex sample_page = 0"
    by (simp add: getActiveScreenshotIndex_def sample_page_def sample_tab_def contains_def)
  from l0 a tabKeydown_selects [OF l0] tabKeydown_selects [OF l2] show ?thesis
    unfolding n by simp
qed

text \<open>
  C7 as stated fails when the key is pressed on a tab other than the active one: with the
  focus on tab 0, a swipe makes tab 1 the current index; \<open>ArrowRight\<close> on the focused tab
  then selects 1 again, not \<open>(1 + 1) mod 3\<close>.
\<close>

theorem keydown_on_inactive_tab_counterexample:
  "focusedTab (run [TabFocus 0, TouchStart 60 0, TouchEnd 0 0] sample_page) = Some 0
   \<and> getActiveScreenshotIndex (run [TabFocus 0, TouchStart 60 0, TouchEnd 0 0] sample_page) = 1
   \<and> getActiveScreenshotIndex
        (run [TabFocus 0, TouchStart 60 0, TouchEnd 0 0, TabKeydown 0 ''ArrowRight''] sample_page)
       = 1
   \<and> (1 + 1) mod int (length (screenshotTabs sample_page)) \<noteq> 1"
  by (simp add: run_def focusTab_def tabKeydown_def touchstart_def touchend_def handleSwipe_def
      swipeTarget_def stopScreenshotAutoplay_def truthy_handle_def getActiveScreenshotIndex_def
      switchScreenshotTab_def updateTab_def toggleClass_def setAttribute_def contains_def
      js_rem_def swipeThreshold_def sample_page_def sample_tab_def initial_state_def Let_def)

text \<open>
  C8. On a page with a navbar, for a scroll step from the previous offset
  \<open>lastScrollY\<close> to the current offset \<open>c\<close>: a shown navbar becomes hidden exactly when
  the device is not mobile, \<open>c\<close> exceeds 100 and \<open>c - lastScrollY\<close> exceeds 5 (its
  transform is then \<open>translateY(-100%)\<close>); after an upward step with
  \<open>lastScrollY - c\<close> above 5 the navbar is shown; and it is shown whenever \<open>c\<close> is at
  most 100 or the device is mobile.
\<close>

theorem handleNavbarScroll_visibility:
  assumes "navbar p = Some nb"
  shows "(\<not> isNavbarHidden (st p) \<longrightarrow>
            isNavbarHidden (st (dispatch (Scroll c) p))
              = (\<not> isMobile p \<and> c > 100 \<and> c - lastScrollY (st p) > 5))
    \<and> (isNavbarHidden (st (dispatch (Scroll c) p)) \<and> \<not> isNavbarHidden (st p) \<longrightarrow>
          (\<exists>nb'. navbar (dispatch (Scroll c) p) = Some nb'
             \<and> style nb' ''transform'' = Some ''translateY(-100%)''))
    \<and> (lastScrollY (st p) - c > 5 \<longrightarrow> \<not> isNavbarHidden (st (dispatch (Scroll c) p)))
    \<and> (lastScrollY (st p) - c > 5 \<and> isNavbarHidden (st p) \<longrightarrow>
          (\<exists>nb'. navbar (dispatch (Scroll c) p) = Some nb'
             \<and> style nb' ''transform'' = Some ''translateY(0)''))
    \<and> (c \<le> 100 \<or> isMobile p \<longrightarrow>
          \<not> isNavbarHidden (st (dispatch (Scroll c) p))
          \<and> (\<exists>nb'. navbar (dispatch (Scroll c) p) = Some nb'
               \<and> style nb' ''transform'' = Some ''translateY(0)''))"
  using assms
  by (auto simp: handleNavbarScroll_def isMobile_def Let_def scrollThreshold_def
      navbarHideThreshold_def setStyle_def toggleClass_def)

theorem handleNavbarScroll_visibility_witness:
  "navbar sample_page = Some (sample_plain ''navbar'')
   \<and> \<not> isNavbarHidden (st sample_page)
   \<and> isNavbarHidden (st (dispatch (Scroll 200) sample_page))
   \<and> \<not> isNavbarHidden (st (dispatch (Scroll 100) sample_page))
   \<and> \<not> isNavbarHidden (st (dispatch (Scroll 6) (sample_page\<lparr>innerWidth := 400\<rparr>)))"
proof -
  have nb: "navbar sample_page = Some (sample_plain ''navbar'')"
    by (simp add: sample_page_def)
  then have nb': "navbar (sample_page\<lparr>innerWidth := 400\<rparr>) = Some (sample_plain ''navbar'')"
    by simp
  have facts: "\<not> isNavbarHidden (st sample_page)" "lastScrollY (st sample_page) = 0"
    "\<not> isMobile sample_page" "isMobile (sample_page\<lparr>innerWidth := 400\<rparr>)"
    by (simp_all add: sample_page_def initial_state_def isMobile_def mobileBreakpoint_def)
  from nb facts
    handleNavbarScroll_visibility [OF nb, of 200]
    handleNavbarScroll_visibility [OF nb, of 100]
    handleNavbarScroll_visibility [OF nb', of 6]
  show ?thesis by simp
qed

text \<open>
  C9 (as the script behaves). No handler assigns \<open>state.scrollDirection\<close>: after a
  processed scroll event, and after any sequence of events, it has the value it had
  before, which is \<open>up\<close> from the initial state, whatever the sign of the offset delta.
  What the scroll handler records is the offset: on a page with a navbar
  \<open>lastScrollY\<close> is the current offset afterwards.
\<close>

theorem scrollDirection_never_updated:
  "scrollDirection (st (dispatch (Scroll c) p)) = scrollDirection (st p)
   \<and> scrollDirection (st (run events p)) = scrollDirection (st p)
   \<and> scrollDirection (st (run events (p\<lparr>st := initial_state\<rparr>))) = ''up''
   \<and> (navbar p \<noteq> None \<longrightarrow> lastScrollY (st (dispatch (Scroll c) p)) = c)"
proof -
  have "navbar p \<noteq> None \<longrightarrow> lastScrollY (st (dispatch (Scroll c) p)) = c"
    by (simp add: lastScrollY_navbar)
  moreover have "scrollDirection (st (run events (p\<lparr>st := initial_state\<rparr>))) = ''up''"
    by (simp add: direction_run initial_state_def)
  ultimately show ?thesis
    by (simp only: direction_dispatch direction_run simp_thms)
qed

theorem scrollDirection_never_updated_witness:
  "navbar sample_page \<noteq> None
   \<and> lastScrollY (st (dispatch (Scroll 10) sample_page)) = 10
   \<and> scrollDirection (st (dispatch (Scroll 10) sample_page)) = ''up''"
  using scrollDirection_never_updated [of 10 sample_page "[]"]
  by (simp add: sample_page_def initial_state_def)

text \<open>
  C9 as stated fails: from offset 0 a scroll to offset 10 has a positive delta, and the
  tracked direction is not \<open>down\<close> afterwards.
\<close>

theorem scrollDirection_counterexample:
  "10 - lastScrollY (st sample_page) > 0
   \<and> scrollDirection (st (dispatch (Scroll 10) sample_page)) \<noteq> ''down''"
  by (simp add: handleNavbarScroll_def sample_page_def initial_state_def Let_def)

text \<open>
  C6 (as the script behaves). For a touch from \<open>(x0, y0)\<close> to \<open>(x1, y1)\<close> on a gallery
  whose active tab is \<open>i\<close>, with \<open>dx = x0 - x1\<close> and \<open>dy = y0 - y1\<close>: a transition is
  dispatched if and only if \<open>|dx|\<close> is at least the 50px threshold and \<open>|dx|\<close> is at
  least \<open>|dy|\<close>; without a dispatch the tabs, screenshots and caption are untouched;
  with one, positive \<open>dx\<close> selects \<open>(i + 1) mod N\<close> and negative \<open>dx\<close> selects
  \<open>(i - 1 + N) mod N\<close>. In particular \<open>dx = 60, dy = 10\<close> advances one index and
  \<open>dx = 30\<close> causes no transition.
\<close>

theorem swipe_resolution:
  assumes "i < length (screenshotTabs p)" and "getActiveScreenshotIndex p = int i"
  shows "(swipeTarget (swipePage x0 y0 x1 y1 p) \<noteq> None)
           = (swipeThreshold \<le> \<bar>x0 - x1\<bar> \<and> \<bar>y0 - y1\<bar> \<le> \<bar>x0 - x1\<bar>)
    \<and> run [TouchStart x0 y0, TouchEnd x1 y1] p = handleSwipe (swipePage x0 y0 x1 y1 p)
    \<and> (swipeTarget (swipePage x0 y0 x1 y1 p) = None \<longrightarrow>
          screenshotTabs (run [TouchStart x0 y0, TouchEnd x1 y1] p) = screenshotTabs p
          \<and> screenshots (run [TouchStart x0 y0, TouchEnd x1 y1] p) = screenshots p
          \<and> screenshotCaption (run [TouchStart x0 y0, TouchEnd x1 y1] p) = screenshotCaption p)
    \<and> (swipeTarget (swipePage x0 y0 x1 y1 p) \<noteq> None \<and> 0 < x0 - x1 \<longrightarrow>
          getActiveScreenshotIndex (run [TouchStart x0 y0, TouchEnd x1 y1] p)
            = (int i + 1) mod int (length (screenshotTabs p)))
    \<and> (swipeTarget (swipePage x0 y0 x1 y1 p) \<noteq> None \<and> x0 - x1 < 0 \<longrightarrow>
          getActiveScreenshotIndex (run [TouchStart x0 y0, TouchEnd x1 y1] p)
            = (int i - 1 + int (length (screenshotTabs p))) mod int (length (screenshotTabs p)))
    \<and> (x0 - x1 = 60 \<and> y0 - y1 = 10 \<longrightarrow>
          getActiveScreenshotIndex (run [TouchStart x0 y0, TouchEnd x1 y1] p)
            = (int i + 1) mod int (length (screenshotTabs p)))
    \<and> (x0 - x1 = 30 \<longrightarrow>
          screenshotTabs (run [TouchStart x0 y0, TouchEnd x1 y1] p) = screenshotTabs p)"
proof -
  let ?q = "swipePage x0 y0 x1 y1 p"
  let ?r = "run [TouchStart x0 y0, TouchEnd x1 y1] p"
  from assms(1) have ne: "screenshotTabs p \<noteq> []" by auto
  have pair: "?r = handleSwipe ?q"
    using ne by (rule touch_pair)
  have disp: "(swipeTarget ?q \<noteq> None)
      = (swipeThreshold \<le> \<bar>x0 - x1\<bar> \<and> \<bar>y0 - y1\<bar> \<le> \<bar>x0 - x1\<bar>)"
    by (rule swipeTarget_dispatched)
  have none: "swipeTarget ?q = None \<longrightarrow>
      screenshotTabs ?r = screenshotTabs p \<and> screenshots ?r = screenshots p
      \<and> screenshotCaption ?r = screenshotCaption p"
    unfolding pair
    by (simp add: swipe_none swipePage_def touchstart_def stopScreenshotAutoplay_if)
  have nxt: "swipeTarget ?q \<noteq> None \<and> 0 < x0 - x1 \<longrightarrow>
      getActiveScreenshotIndex ?r = (int i + 1) mod int (length (screenshotTabs p))"
  proof
    assume "swipeTarget ?q \<noteq> None \<and> 0 < x0 - x1"
    with disp have "swipeThreshold \<le> \<bar>x0 - x1\<bar>" "\<bar>y0 - y1\<bar> \<le> \<bar>x0 - x1\<bar>" "0 < x0 - x1"
      by blast+
    from swipe_next [OF assms(2) assms(1) this]
    show "getActiveScreenshotIndex ?r = (int i + 1) mod int (length (screenshotTabs p))"
      unfolding pair .
  qed
  have prv: "swipeTarget ?q \<noteq> None \<and> x0 - x1 < 0 \<longrightarrow>
      getActiveScreenshotIndex ?r
        = (int i - 1 + int (length (screenshotTabs p))) mod int (length (screenshotTabs p))"
  proof
    assume "swipeTarget ?q \<noteq> None \<and> x0 - x1 < 0"
    with disp have "swipeThreshold \<le> \<bar>x0 - x1\<bar>" "\<bar>y0 - y1\<bar> \<le> \<bar>x0 - x1\<bar>" "x0 - x1 < 0"
      by blast+
    from swipe_prev [OF assms(2) assms(1) this]
    show "getActiveScreenshotIndex ?r
        = (int i - 1 + int (length (screenshotTabs p))) mod int (length (screenshotTabs p))"
      unfolding pair .
  qed
  have ex60: "x0 - x1 = 60 \<and> y0 - y1 = 10 \<longrightarrow>
      getActiveScreenshotIndex ?r = (int i + 1) mod int (length (screenshotTabs p))"
    using nxt unfolding disp by (simp add: swipeThreshold_def)
  have ex30: "x0 - x1 = 30 \<longrightarrow> screenshotTabs ?r = screenshotTabs p"
    using none unfolding disp [symmetric, simplified] 
    by (auto simp: swipeTarget_def Let_def swipeThreshold_def)
  from disp pair none nxt prv ex60 ex30 show ?thesis
    by blast
qed

theorem swipe_resolution_witness:
  "(0::nat) < length (screenshotTabs sample_page)
   \<and> getActiveScreenshotIndex sample_page = 0
   \<and> getActiveScreenshotIndex (run [TouchStart 60 10, TouchEnd 0 0] sample_page) = 1
   \<and> getActiveScreenshotIndex (run [TouchStart 0 0, TouchEnd 60 10] sample_page) = 2
   \<and> screenshotTabs (run [TouchStart 30 0, TouchEnd 0 0] sample_page)
       = screenshotTabs sample_page"
proof -
  have n: "length (screenshotTabs sample_page) = 3"
    by (simp add: sample_page_def)
  then have l: "0 < length (screenshotTabs sample_page)" by simp
  have a: "getActiveScreenshotIndex sample_page = int 0"
    by (simp add: getActiveScreenshotIndex_def sample_page_def sample_tab_def contains_def)
  from swipe_resolution [OF l a, of 60 10 0 0]
  have "(60::int) - 0 = 60 \<and> (10::int) - 0 = 10 \<longrightarrow>
      getActiveScreenshotIndex (run [TouchStart 60 10, TouchEnd 0 0] sample_page)
        = (int 0 + 1) mod int (length (screenshotTabs sample_page))"
    by blast
  then have r1: "getActiveScreenshotIndex (run [TouchStart 60 10, TouchEnd 0 0] sample_page) = 1"
    unfolding n by simp
  from swipe_resolution [OF l a, of 0 0 60 10]
  have "swipeThreshold \<le> \<bar>0 - 60\<bar> \<and> \<bar>0 - 10\<bar> \<le> \<bar>(0::int) - 60\<bar> \<longrightarrow> (0::int) - 60 < 0 \<longrightarrow>
      getActiveScreenshotIndex (run [TouchStart 0 0, TouchEnd 60 10] sample_page)
        = (int 0 - 1 + int (length (screenshotTabs sample_page)))
            mod int (length (screenshotTabs sample_page))"
    by blast
  then have r2: "getActiveScreenshotIndex (run [TouchStart 0 0, TouchEnd 60 10] sample_page) = 2"
    unfolding n by (simp add: swipeThreshold_def)
  from swipe_resolution [OF l a, of 30 0 0 0]
  have "(30::int) - 0 = 30 \<longrightarrow>
      screenshotTabs (run [TouchStart 30 0, TouchEnd 0 0] sample_page) = screenshotTabs sample_page"
    by blast
  then have r3: "screenshotTabs (run [TouchStart 30 0, TouchEnd 0 0] sample_page)
      = screenshotTabs sample_page"
    by simp
  from l a r1 r2 r3 show ?thesis
    by (simp only: of_nat_0 simp_thms)
qed

text \<open>
  C6 as stated fails at both boundaries: a swipe of exactly 50px (which does not exceed
  the threshold) advances the gallery, and so does a diagonal swipe with
  \<open>|dx| = |dy| = 60\<close> (where \<open>|dx|\<close> does not exceed \<open>|dy|\<close>).
\<close>

theorem swipe_boundary_counterexample:
  "getActiveScreenshotIndex sample_page = 0
   \<and> getActiveScreenshotIndex (run [TouchStart 50 0, TouchEnd 0 0] sample_page) = 1
   \<and> \<not> (\<bar>50 - 0\<bar> > swipeThreshold)
   \<and> getActiveScreenshotIndex (run [TouchStart 60 60, TouchEnd 0 0] sample_page) = 1
   \<and> \<not> (\<bar>60 - 0 :: int\<bar> > \<bar>60 - 0\<bar>)"
  by (simp add: run_def touchstart_def touchend_def handleSwipe_def swipeTarget_def
      stopScreenshotAutoplay_if truthy_handle_def getActiveScreenshotIndex_def
      switchScreenshotTab_def updateTab_def toggleClass_def setAttribute_def contains_def
      js_rem_def swipeThreshold_def sample_page_def sample_tab_def initial_state_def Let_def)

text \<open>
  C1 (as the script behaves). Whatever routines throw, \<open>init\<close> returns: the error of
  the first routine that throws is caught and logged, and nothing is fatal. The routines
  called before that one have run; it and every routine after it in the sequence have
  not. When no routine throws, all of them run and no error is logged.
\<close>

theorem init_stops_at_first_failure:
  "fst (init throws) = takeWhile (\<lambda>s. \<not> throws s) init_body
   \<and> snd (init throws) = (case dropWhile (\<lambda>s. \<not> throws s) init_body of [] \<Rightarrow> None | s # _ \<Rightarrow> Some s)
   \<and> fst (init throws) @ dropWhile (\<lambda>s. \<not> throws s) init_body = init_body
   \<and> ((\<forall>s \<in> set init_body. \<not> throws s) \<longrightarrow> init throws = (init_body, None))
   \<and> (\<forall>s \<in> set (fst (init throws)). \<not> throws s)"
proof -
  have "(\<forall>s \<in> set init_body. \<not> throws s) \<longrightarrow> init throws = (init_body, None)"
  proof
    assume a: "\<forall>s \<in> set init_body. \<not> throws s"
    then have t: "takeWhile (\<lambda>s. \<not> throws s) init_body = init_body"
      and d: "dropWhile (\<lambda>s. \<not> throws s) init_body = []"
      by simp_all
    have "fst (init throws) = init_body"
      by (simp add: init_def try_block_ran t)
    moreover have "snd (init throws) = None"
      by (simp only: init_def try_block_error d list.case)
    ultimately show "init throws = (init_body, None)"
      by (simp add: prod_eq_iff)
  qed
  moreover have "\<forall>s \<in> set (takeWhile (\<lambda>s. \<not> throws s) init_body). \<not> throws s"
    by (auto dest: set_takeWhileD)
  ultimately show ?thesis
    by (simp add: init_def try_block_ran try_block_error)
qed

theorem init_stops_at_first_failure_witness:
  "fst (init throws_without_IntersectionObserver)
     = [Step_initAccessibility, Step_generateParticles, Step_initImageLoadHandlers,
        Step_initLazyLoading, Step_initScreenshotTabs, Step_initSmoothScroll,
        Step_initDropdownMenus, Step_initEventListeners, Step_initBackToTop,
        Step_initSwipeGestures, Step_initKeyboardShortcuts, Step_initScrollReveal]
   \<and> snd (init throws_without_IntersectionObserver) = Some Step_initActiveSectionTracking
   \<and> init (\<lambda>s. False) = (init_body, None)"
  using init_stops_at_first_failure [of throws_without_IntersectionObserver]
    init_stops_at_first_failure [of "\<lambda>s. False"]
  by (simp add: init_body_def throws_without_IntersectionObserver_def)

text \<open>
  C1 as stated fails: on a browser without \<open>IntersectionObserver\<close>
  \<open>initActiveSectionTracking\<close> throws, and \<open>initParallax\<close> and
  \<open>initCopyProtection\<close>, which would not throw, are never called.
\<close>

theorem init_skips_later_steps_counterexample:
  "throws_without_IntersectionObserver Step_initActiveSectionTracking
   \<and> \<not> throws_without_IntersectionObserver Step_initParallax
   \<and> Step_initParallax \<notin> set (fst (init throws_without_IntersectionObserver))
   \<and> Step_initCopyProtection \<notin> set (fst (init throws_without_IntersectionObserver))"
  by (simp add: init_def init_body_def throws_without_IntersectionObserver_def)

end
